theory Spec2Isabelle
  imports Complex_Main
begin

section \<open>The schema model read by the generators\<close>

text \<open>
  The generators of \<^verbatim>\<open>pqtsql/generator.go\<close> and \<^verbatim>\<open>internal/gogen/gen_general.go\<close>
  read a graph of \<^verbatim>\<open>pqt\<close> values. The declarations of package \<^verbatim>\<open>pqt\<close> are not among
  the sources at hand, so the records below hold the fields the two files read, under the
  names the two files use (with a prefix per record, since field names are global here).

  Pointers: a value that the source tests against \<^verbatim>\<open>nil\<close> is an \<open>option\<close>, and using
  it without the test is the error \<open>NilPointerDereference\<close> (Go panics). Pointers that the
  source dereferences without ever testing them (columns, constraints, relationships, the
  tables named by a constraint or relationship) are taken to be non-nil.
\<close>

abbreviation nl :: string where "nl \<equiv> [CHR 0x0A]"
abbreviation tab :: string where "tab \<equiv> [CHR 0x09]"

text \<open>
  \<^verbatim>\<open>Generator.Version\<close> is a \<^verbatim>\<open>float64\<close>. Its only use is the comparison \<^verbatim>\<open>ver >= 9.5\<close>;
  9.5 is a binary fraction, so on finite values the comparison is the one of the rationals;
  an infinity compares by its sign and NaN compares false.
\<close>

datatype float64 = Finite rat | PosInf | NegInf | NaN

fun float64_ge :: "float64 \<Rightarrow> rat \<Rightarrow> bool" where
  "float64_ge (Finite v) c = (c \<le> v)"
| "float64_ge PosInf c = True"
| "float64_ge NegInf c = False"
| "float64_ge NaN c = False"

record Generator =
  Version :: float64

text \<open>
  \<^verbatim>\<open>pqt.ConstraintType\<close>: the seven declared types, and \<open>ConstraintTypeOther\<close> for any
  other value of the underlying type.
\<close>

datatype ConstraintType =
    ConstraintTypePrimaryKey
  | ConstraintTypeUnique
  | ConstraintTypeForeignKey
  | ConstraintTypeCheck
  | ConstraintTypeIndex
  | ConstraintTypeUniqueIndex
  | ConstraintTypeExclusion
  | ConstraintTypeOther string

text \<open>Referential actions; \<open>NoAction\<close> stands for every value the switches do not name.\<close>

datatype Action = NoAction | Restrict | Cascade | SetNull | SetDefault

datatype Event = EventInsert | EventUpdate

datatype FunctionBehaviour =
    FunctionBehaviourUnspecified
  | FunctionBehaviourVolatile
  | FunctionBehaviourImmutable
  | FunctionBehaviourStable

text \<open>A \<^verbatim>\<open>pqt.Type\<close> is an interface value; the model names it by a tag.\<close>

datatype PType = PType string

record Column =
  col_Name :: string
  col_Type :: PType
  col_Collate :: string
  col_Default :: "(Event \<times> string) list"
  col_NotNull :: bool
  col_IsDynamic :: bool

text \<open>
  A \<^verbatim>\<open>*pqt.Table\<close> held by a constraint or a relationship: the generators compare it by
  identity and read its \<^verbatim>\<open>Name\<close>, so the model keeps the address and the name.
\<close>

record TableRef =
  ref_Addr :: nat
  ref_Name :: string

record Constraint =
  cn_Type :: ConstraintType
  cn_PrimaryTable :: TableRef
  cn_Table :: "TableRef option"
  cn_PrimaryColumns :: "Column list"
  cn_Columns :: "Column list"
  cn_Check :: string
  cn_Where :: string
  cn_OnDelete :: Action
  cn_OnUpdate :: Action

datatype RelationshipType =
    RelationshipTypeOneToOne
  | RelationshipTypeOneToMany
  | RelationshipTypeManyToOne
  | RelationshipTypeManyToMany
  | RelationshipTypeOther

record Relationship =
  rel_Type :: RelationshipType
  rel_OwnerTable :: TableRef
  rel_InversedTable :: TableRef
  rel_OwnerName :: string
  rel_InversedName :: string
  rel_OwnerColumns :: "Column list"
  rel_OwnerForeignKey :: "Constraint option"

text \<open>
  A Go slice is a window on a backing array: \<open>elems\<close> are the cells below its length,
  \<open>spare\<close> the cells between its length and its capacity. \<^verbatim>\<open>append\<close> writes into the
  first spare cell when there is one, and this cell belongs to every slice on the same
  array; otherwise it copies the elements to a new array (whose further spare cells no other
  slice sees, so the model leaves them out).
\<close>

record 'a slice =
  elems :: "'a list"
  spare :: "'a list"

definition go_append :: "'a slice \<Rightarrow> 'a \<Rightarrow> 'a slice \<times> bool" where
  "go_append s x =
     (if spare s = [] then (\<lparr>elems = elems s @ [x], spare = []\<rparr>, False)
      else (\<lparr>elems = elems s @ [x], spare = tl (spare s)\<rparr>, True))"

text \<open>The slice of length \<open>n\<close> on the backing array of \<open>s\<close>.\<close>

definition view :: "nat \<Rightarrow> 'a slice \<Rightarrow> 'a slice" where
  "view n s = \<lparr>elems = take n (elems s @ spare s), spare = drop n (elems s @ spare s)\<rparr>"

record Table =
  tbl_Name :: string
  tbl_Schema :: "string option"
  tbl_Columns :: "Column list"
  tbl_Constraints :: "Constraint slice"
  tbl_Temporary :: bool
  tbl_IfNotExists :: bool
  tbl_OwnedRelationships :: "Relationship list"
  tbl_InversedRelationships :: "Relationship list"
  tbl_ManyToManyRelationships :: "Relationship list"

record FunctionArg =
  arg_Name :: string
  arg_Type :: PType

record Function =
  fn_Name :: string
  fn_Args :: "FunctionArg list"
  fn_Type :: PType
  fn_Body :: string
  fn_Behaviour :: FunctionBehaviour

record Schema =
  sch_Name :: string
  sch_IfNotExists :: bool
  sch_Functions :: "Function option list"
  sch_Tables :: "Table option list"

text \<open>
  The methods of package \<^verbatim>\<open>pqt\<close> that the emitter calls and whose bodies are not at
  hand are parameters of the model: \<^verbatim>\<open>Constraint.Name\<close>, \<^verbatim>\<open>Table.FullName\<close>,
  \<^verbatim>\<open>JoinColumns\<close>, \<^verbatim>\<open>Columns.String\<close> and \<^verbatim>\<open>Type.String\<close>.
\<close>

record pqt =
  Constraint_Name :: "Constraint \<Rightarrow> string"
  Table_FullName :: "TableRef \<Rightarrow> string"
  JoinColumns :: "Column list \<Rightarrow> string \<Rightarrow> string"
  Columns_String :: "Column list \<Rightarrow> string"
  Type_String :: "PType \<Rightarrow> string"

text \<open>
  Modelled from the spec: \<^verbatim>\<open>Constraints.CountOf\<close> is missing from the sources; the spec
  gives \<^verbatim>\<open>CountOf(constraints, types...) -> int\<close>, the number of constraints whose type
  is one of the given types.
\<close>

definition CountOf :: "Constraint list \<Rightarrow> ConstraintType list \<Rightarrow> int" where
  "CountOf cs types = int (length (filter (\<lambda>c. cn_Type c \<in> set types) cs))"

text \<open>
  Modelled from the spec: \<^verbatim>\<open>Column.DefaultOn\<close> is missing from the sources; the spec
  gives a column per-event default expressions keyed by the event.
\<close>

definition DefaultOn :: "Column \<Rightarrow> Event \<Rightarrow> string option" where
  "DefaultOn c e = map_of (col_Default c) e"

text \<open>
  Errors. The first seven are the \<^verbatim>\<open>error\<close> values the emitter returns, in the order of
  their messages in the source: "missing function name", "missing table name",
  "table %s has no columns", "unknown constraint type: %s", "foreign key constraint require
  at least one column", "foreign key constraint require at least one reference column",
  "foreiqn key constraint missing reference table". The last is Go's run-time panic.
\<close>

datatype error =
    MissingFunctionName
  | MissingTableName
  | TableHasNoColumns string
  | UnknownConstraintType ConstraintType
  | ForeignKeyNoColumn
  | ForeignKeyNoReferenceColumn
  | ForeignKeyMissingReferenceTable
  | NilPointerDereference

section \<open>The DDL emitter (pqtsql/generator.go)\<close>

text \<open>
  The emitter writes into a \<^verbatim>\<open>bytes.Buffer\<close>; every function of the model takes the
  buffer's contents and returns the contents after its writes.
\<close>

subsection \<open>Constraint rendering\<close>

definition uniqueConstraintQuery :: "pqt \<Rightarrow> string \<Rightarrow> Constraint \<Rightarrow> string" where
  \<open>uniqueConstraintQuery X buf c =
     buf @ ''CONSTRAINT "'' @ Constraint_Name X c @ ''" UNIQUE (''
       @ JoinColumns X (cn_PrimaryColumns c) '', '' @ '')''\<close>

definition primaryKeyConstraintQuery :: "pqt \<Rightarrow> string \<Rightarrow> Constraint \<Rightarrow> string" where
  \<open>primaryKeyConstraintQuery X buf c =
     buf @ ''CONSTRAINT "'' @ Constraint_Name X c @ ''" PRIMARY KEY (''
       @ JoinColumns X (cn_PrimaryColumns c) '', '' @ '')''\<close>

definition foreignKeyConstraintQuery :: "pqt \<Rightarrow> string \<Rightarrow> Constraint \<Rightarrow> error + string" where
  \<open>foreignKeyConstraintQuery X buf c =
     (if length (cn_PrimaryColumns c) = 0 then Inl ForeignKeyNoColumn
      else if length (cn_Columns c) = 0 then Inl ForeignKeyNoReferenceColumn
      else case cn_Table c of
        None \<Rightarrow> Inl ForeignKeyMissingReferenceTable
      | Some rt \<Rightarrow>
          let buf = buf @ ''CONSTRAINT "'' @ Constraint_Name X c @ ''" FOREIGN KEY (''
                      @ JoinColumns X (cn_PrimaryColumns c) '', '' @ '') REFERENCES ''
                      @ Table_FullName X rt @ '' ('' @ JoinColumns X (cn_Columns c) '', '' @ '')'';
              buf = (case cn_OnDelete c of
                       Cascade \<Rightarrow> buf @ '' ON DELETE CASCADE''
                     | Restrict \<Rightarrow> buf @ '' ON DELETE RESTRICT''
                     | SetNull \<Rightarrow> buf @ '' ON DELETE SET NULL''
                     | SetDefault \<Rightarrow> buf @ '' ON DELETE SET DEFAULT''
                     | NoAction \<Rightarrow> buf);
              buf = (case cn_OnUpdate c of
                       Cascade \<Rightarrow> buf @ '' ON UPDATE CASCADE''
                     | Restrict \<Rightarrow> buf @ '' ON UPDATE RESTRICT''
                     | SetNull \<Rightarrow> buf @ '' ON UPDATE SET NULL''
                     | SetDefault \<Rightarrow> buf @ '' ON UPDATE SET DEFAULT''
                     | NoAction \<Rightarrow> buf)
          in Inr buf)\<close>

definition checkConstraintQuery :: "pqt \<Rightarrow> string \<Rightarrow> Constraint \<Rightarrow> string" where
  \<open>checkConstraintQuery X buf c =
     buf @ ''CONSTRAINT "'' @ Constraint_Name X c @ ''" CHECK ('' @ cn_Check c @ '')''\<close>

definition indexConstraintQuery :: "pqt \<Rightarrow> string \<Rightarrow> Constraint \<Rightarrow> float64 \<Rightarrow> string" where
  \<open>indexConstraintQuery X buf c ver =
     (let buf =
        (if float64_ge ver (19 / 2) then
           buf @ ''CREATE INDEX IF NOT EXISTS "'' @ Constraint_Name X c @ ''" ON ''
             @ Table_FullName X (cn_PrimaryTable c) @ '' (''
             @ Columns_String X (cn_PrimaryColumns c) @ '');''
         else
           buf @ ''CREATE INDEX "'' @ Constraint_Name X c @ ''" ON ''
             @ Table_FullName X (cn_PrimaryTable c) @ '' (''
             @ Columns_String X (cn_PrimaryColumns c) @ '');'')
      in buf @ nl)\<close>

definition uniqueIndexConstraintQuery :: "pqt \<Rightarrow> string \<Rightarrow> Constraint \<Rightarrow> float64 \<Rightarrow> string" where
  \<open>uniqueIndexConstraintQuery X buf c ver =
     (let buf =
        (if float64_ge ver (19 / 2) then
           buf @ ''CREATE UNIQUE INDEX IF NOT EXISTS "'' @ Constraint_Name X c @ ''" ON ''
             @ Table_FullName X (cn_PrimaryTable c) @ '' (''
             @ Columns_String X (cn_PrimaryColumns c) @ '')''
         else
           buf @ ''CREATE UNIQUE INDEX "'' @ Constraint_Name X c @ ''" ON ''
             @ Table_FullName X (cn_PrimaryTable c) @ '' (''
             @ Columns_String X (cn_PrimaryColumns c) @ '')'');
          buf = (if cn_Where c \<noteq> [] then buf @ '' WHERE '' @ cn_Where c else buf)
      in buf @ '';'' @ nl)\<close>

definition generateConstraint ::
  "pqt \<Rightarrow> Generator \<Rightarrow> string \<Rightarrow> Constraint \<Rightarrow> error + string" where
  "generateConstraint X g buf c =
     (case cn_Type c of
        ConstraintTypeUnique \<Rightarrow> Inr (uniqueConstraintQuery X buf c)
      | ConstraintTypePrimaryKey \<Rightarrow> Inr (primaryKeyConstraintQuery X buf c)
      | ConstraintTypeForeignKey \<Rightarrow> foreignKeyConstraintQuery X buf c
      | ConstraintTypeCheck \<Rightarrow> Inr (checkConstraintQuery X buf c)
      | ConstraintTypeIndex \<Rightarrow> Inr buf
      | ConstraintTypeUniqueIndex \<Rightarrow> Inr buf
      | ConstraintTypeExclusion \<Rightarrow> Inl (UnknownConstraintType (cn_Type c))
      | ConstraintTypeOther x \<Rightarrow> Inl (UnknownConstraintType (cn_Type c)))"

subsection \<open>Functions\<close>

text \<open>The loop over \<^verbatim>\<open>f.Args\<close>, with its index \<open>i\<close>.\<close>

fun argsLoop :: "pqt \<Rightarrow> int \<Rightarrow> FunctionArg list \<Rightarrow> string \<Rightarrow> string" where
  "argsLoop X i [] buf = buf"
| "argsLoop X i (arg # args) buf =
     (let buf = (if i \<noteq> 0 then buf @ '', '' else buf);
          buf = buf @ arg_Name arg;
          buf = buf @ '' '';
          buf = buf @ Type_String X (arg_Type arg)
      in argsLoop X (i + 1) args buf)"

definition generateCreateFunction ::
  "pqt \<Rightarrow> Generator \<Rightarrow> string \<Rightarrow> Function option \<Rightarrow> error + string" where
  "generateCreateFunction X g buf f' =
     (case f' of
        None \<Rightarrow> Inr buf
      | Some f \<Rightarrow>
          if fn_Name f = [] then Inl MissingFunctionName
          else
            let buf = buf @ ''CREATE OR REPLACE FUNCTION '';
                buf = buf @ fn_Name f;
                buf = buf @ ''('';
                buf = argsLoop X 0 (fn_Args f) buf;
                buf = buf @ '') RETURNS '';
                buf = buf @ Type_String X (fn_Type f);
                buf = buf @ nl @ tab @ ''AS '' @ [CHR 0x27];
                buf = buf @ fn_Body f;
                buf = buf @ [CHR 0x27] @ nl @ tab @ ''LANGUAGE SQL'';
                buf = (case fn_Behaviour f of
                         FunctionBehaviourVolatile \<Rightarrow> buf @ nl @ tab @ ''VOLATILE''
                       | FunctionBehaviourImmutable \<Rightarrow> buf @ nl @ tab @ ''IMMUTABLE''
                       | FunctionBehaviourStable \<Rightarrow> buf @ nl @ tab @ ''STABLE''
                       | FunctionBehaviourUnspecified \<Rightarrow> buf);
                buf = buf @ '';'' @ nl @ nl
            in Inr buf)"

subsection \<open>Tables\<close>

text \<open>
  Lines 137 to 146: the working list \<^verbatim>\<open>constraints\<close> starts as the slice
  \<^verbatim>\<open>t.Constraints\<close> and grows by \<^verbatim>\<open>append\<close>. The state of the loop is the working
  slice, the slice \<^verbatim>\<open>t.Constraints\<close> as it stands in memory, and whether the two are
  still on one backing array; an \<^verbatim>\<open>append\<close> in place writes a cell of that array.
\<close>

fun workingLoop ::
  "Relationship list \<Rightarrow> Constraint slice \<times> Constraint slice \<times> bool
     \<Rightarrow> Constraint slice \<times> Constraint slice \<times> bool" where
  "workingLoop [] st = st"
| "workingLoop (r # rs) (constraints, stored, shared) =
     (if length (rel_OwnerColumns r) = 1 then workingLoop rs (constraints, stored, shared)
      else case rel_OwnerForeignKey r of
        None \<Rightarrow> workingLoop rs (constraints, stored, shared)
      | Some fk \<Rightarrow>
          (case go_append constraints fk of
             (constraints', inplace) \<Rightarrow>
               workingLoop rs
                 (constraints',
                  if shared \<and> inplace then view (length (elems stored)) constraints' else stored,
                  shared \<and> inplace)))"

definition workingConstraints :: "Table \<Rightarrow> Constraint slice \<times> Constraint slice \<times> bool" where
  "workingConstraints t =
     workingLoop (tbl_OwnedRelationships t) (tbl_Constraints t, tbl_Constraints t, True)"

text \<open>The table as it stands in memory after the pass: only the backing array can differ.\<close>

definition tableAfter :: "Table \<Rightarrow> Table" where
  "tableAfter t = t\<lparr>tbl_Constraints := fst (snd (workingConstraints t))\<rparr>"

text \<open>
  The loop over \<^verbatim>\<open>t.Columns\<close> (lines 154 to 178): \<open>n\<close> is \<^verbatim>\<open>len(t.Columns)\<close> and
  \<open>i\<close> the index of the column in the declared list.
\<close>

fun columnsLoop :: "pqt \<Rightarrow> int \<Rightarrow> int \<Rightarrow> int \<Rightarrow> Column list \<Rightarrow> string \<Rightarrow> string" where
  "columnsLoop X n nbOfConstraints i [] buf = buf"
| "columnsLoop X n nbOfConstraints i (c # cs) buf =
     (if col_IsDynamic c then columnsLoop X n nbOfConstraints (i + 1) cs buf
      else
        let buf = buf @ tab;
            buf = buf @ col_Name c;
            buf = buf @ '' '';
            buf = buf @ Type_String X (col_Type c);
            buf = (if col_Collate c \<noteq> [] then buf @ '' '' @ col_Collate c else buf);
            buf = (case DefaultOn c EventInsert of
                     Some d \<Rightarrow> buf @ '' DEFAULT '' @ d
                   | None \<Rightarrow> buf);
            buf = (if col_NotNull c then buf @ '' NOT NULL'' else buf);
            buf = (if i < n - 1 \<or> nbOfConstraints > 0 then buf @ '','' else buf);
            buf = buf @ nl
        in columnsLoop X n nbOfConstraints (i + 1) cs buf)"

text \<open>
  The loop over the working list (lines 184 to 199): \<open>i\<close> counts the constraints written
  so far.
\<close>

fun inlineLoop ::
  "pqt \<Rightarrow> Generator \<Rightarrow> int \<Rightarrow> int \<Rightarrow> Constraint list \<Rightarrow> string \<Rightarrow> error + string" where
  "inlineLoop X g nbOfConstraints i [] buf = Inr buf"
| "inlineLoop X g nbOfConstraints i (c # cs) buf =
     (if cn_Type c = ConstraintTypeIndex \<or> cn_Type c = ConstraintTypeUniqueIndex
      then inlineLoop X g nbOfConstraints i cs buf
      else
        case generateConstraint X g (buf @ tab) c of
          Inl err \<Rightarrow> Inl err
        | Inr buf \<Rightarrow>
            let buf = (if i < nbOfConstraints - 1 then buf @ '','' else buf);
                buf = buf @ nl
            in inlineLoop X g nbOfConstraints (i + 1) cs buf)"

definition generateCreateTable ::
  "pqt \<Rightarrow> Generator \<Rightarrow> string \<Rightarrow> Table option \<Rightarrow> error + string" where
  "generateCreateTable X g buf t' =
     (case t' of
        None \<Rightarrow> Inr buf
      | Some t \<Rightarrow>
          if tbl_Name t = [] then Inl MissingTableName
          else if length (tbl_Columns t) = 0 then Inl (TableHasNoColumns (tbl_Name t))
          else
            let buf = buf @ ''CREATE '';
                buf = (if tbl_Temporary t then buf @ ''TEMPORARY '' else buf);
                buf = buf @ ''TABLE '';
                buf = (if tbl_IfNotExists t then buf @ ''IF NOT EXISTS '' else buf);
                buf = (case tbl_Schema t of
                         Some schemaName \<Rightarrow> buf @ schemaName @ ''.'' @ tbl_Name t
                       | None \<Rightarrow> buf @ tbl_Name t);
                buf = buf @ '' ('' @ nl;
                constraints = elems (fst (workingConstraints t));
                nbOfConstraints = CountOf constraints
                  [ConstraintTypePrimaryKey, ConstraintTypeCheck, ConstraintTypeUnique,
                   ConstraintTypeForeignKey, ConstraintTypeExclusion];
                buf = columnsLoop X (int (length (tbl_Columns t))) nbOfConstraints 0
                        (tbl_Columns t) buf;
                buf = (if nbOfConstraints > 0 then buf @ nl else buf)
            in (case inlineLoop X g nbOfConstraints 0 constraints buf of
                  Inl err \<Rightarrow> Inl err
                | Inr buf \<Rightarrow> Inr (buf @ '');'' @ nl)))"

subsection \<open>The schema\<close>

text \<open>The loop over \<^verbatim>\<open>t.Constraints\<close> in \<^verbatim>\<open>generate\<close> (lines 57 to 64).\<close>

fun indexesLoop :: "pqt \<Rightarrow> Generator \<Rightarrow> Constraint list \<Rightarrow> string \<Rightarrow> string" where
  "indexesLoop X g [] code = code"
| "indexesLoop X g (cnstr # cs) code =
     (case cn_Type cnstr of
        ConstraintTypeIndex \<Rightarrow> indexesLoop X g cs (indexConstraintQuery X code cnstr (Version g))
      | ConstraintTypeUniqueIndex \<Rightarrow>
          indexesLoop X g cs (uniqueIndexConstraintQuery X code cnstr (Version g))
      | _ \<Rightarrow> indexesLoop X g cs code)"

fun functionsLoop ::
  "pqt \<Rightarrow> Generator \<Rightarrow> Function option list \<Rightarrow> string \<Rightarrow> error + string" where
  "functionsLoop X g [] code = Inr code"
| "functionsLoop X g (f # fs) code =
     (case generateCreateFunction X g code f of
        Inl err \<Rightarrow> Inl err
      | Inr code \<Rightarrow> functionsLoop X g fs code)"

text \<open>
  The loop over \<^verbatim>\<open>s.Tables\<close>. After \<^verbatim>\<open>generateCreateTable\<close> has returned, line 57
  reads \<^verbatim>\<open>t.Constraints\<close> with no test of \<^verbatim>\<open>t\<close>: for a nil entry Go panics there. The
  list it ranges over is the table's own slice as the pass left it.
\<close>

fun tablesLoop ::
  "pqt \<Rightarrow> Generator \<Rightarrow> Table option list \<Rightarrow> string \<Rightarrow> error + string" where
  "tablesLoop X g [] code = Inr code"
| "tablesLoop X g (t' # ts) code =
     (case generateCreateTable X g code t' of
        Inl err \<Rightarrow> Inl err
      | Inr code \<Rightarrow>
          (case t' of
             None \<Rightarrow> Inl NilPointerDereference
           | Some t \<Rightarrow>
               let code = indexesLoop X g (elems (tbl_Constraints (tableAfter t))) code;
                   code = code @ nl
               in tablesLoop X g ts code))"

definition generate :: "pqt \<Rightarrow> Generator \<Rightarrow> Schema \<Rightarrow> error + string" where
  "generate X g s =
     (let code = ''-- do not modify, generated by pqt'' @ nl @ nl;
          code = (if sch_Name s \<noteq> [] then
                    let code = code @ ''CREATE SCHEMA '';
                        code = (if sch_IfNotExists s then code @ ''IF NOT EXISTS '' else code)
                    in code @ sch_Name s @ ''; '' @ nl @ nl
                  else code)
      in (case functionsLoop X g (sch_Functions s) code of
            Inl err \<Rightarrow> Inl err
          | Inr code \<Rightarrow> tablesLoop X g (sch_Tables s) code))"


section \<open>The source emitter (internal/gogen/gen_general.go)\<close>

subsection \<open>The fields of an entity\<close>

record structField =
  sf_Name :: string
  sf_Type :: string
  sf_Tags :: string
  sf_ReadOnly :: bool

datatype Mode = ModeDefault | ModeMandatory | ModeOptional | ModeCriteria

text \<open>
  \<^verbatim>\<open>formatter.Public\<close> and the method \<^verbatim>\<open>columnType\<close> are called by
  \<^verbatim>\<open>entityPropertiesGenerator\<close> and their bodies are not at hand: they are parameters.
\<close>

record gogen =
  Public :: "string \<Rightarrow> string"
  columnType :: "Column \<Rightarrow> Mode \<Rightarrow> string"

text \<open>
  Modelled from the spec: the helper \<^verbatim>\<open>or\<close> is missing from the sources; the spec
  gives the field name as the explicit override name if provided, else the default.
\<close>

definition or :: "string \<Rightarrow> string \<Rightarrow> string" where
  "or s1 s2 = (if s1 \<noteq> [] then s1 else s2)"

text \<open>
  \<^verbatim>\<open>entityPropertiesGenerator\<close> starts one goroutine that sends the fields on an
  unbuffered channel and closes it; its one caller ranges over the channel. The model is the
  sequence of values sent, in the order of the sends: \<open>out\<close> is what has been sent so far.
\<close>

fun columnsFields :: "gogen \<Rightarrow> Column list \<Rightarrow> structField list \<Rightarrow> structField list" where
  "columnsFields G [] out = out"
| "columnsFields G (c # cs) out =
     (let t = columnType G c ModeDefault
      in if t \<noteq> ''<nil>'' then
           columnsFields G cs
             (out @ [\<lparr>sf_Name = Public G (col_Name c), sf_Type = t, sf_Tags = [],
                      sf_ReadOnly = col_IsDynamic c\<rparr>])
         else columnsFields G cs out)"

fun ownedFields :: "gogen \<Rightarrow> Relationship list \<Rightarrow> structField list \<Rightarrow> structField list" where
  "ownedFields G [] out = out"
| "ownedFields G (r # rs) out =
     (case rel_Type r of
        RelationshipTypeOneToMany \<Rightarrow>
          ownedFields G rs
            (out @ [\<lparr>sf_Name = Public G (or (rel_InversedName r) (ref_Name (rel_InversedTable r) @ ''s'')),
                     sf_Type = ''[]*'' @ Public G (ref_Name (rel_InversedTable r)) @ ''Entity'',
                     sf_Tags = [], sf_ReadOnly = False\<rparr>])
      | RelationshipTypeOneToOne \<Rightarrow>
          ownedFields G rs
            (out @ [\<lparr>sf_Name = Public G (or (rel_InversedName r) (ref_Name (rel_InversedTable r))),
                     sf_Type = ''*'' @ Public G (ref_Name (rel_InversedTable r)) @ ''Entity'',
                     sf_Tags = [], sf_ReadOnly = False\<rparr>])
      | RelationshipTypeManyToOne \<Rightarrow>
          ownedFields G rs
            (out @ [\<lparr>sf_Name = Public G (or (rel_InversedName r) (ref_Name (rel_InversedTable r))),
                     sf_Type = ''*'' @ Public G (ref_Name (rel_InversedTable r)) @ ''Entity'',
                     sf_Tags = [], sf_ReadOnly = False\<rparr>])
      | _ \<Rightarrow> ownedFields G rs out)"

fun inversedFields :: "gogen \<Rightarrow> Relationship list \<Rightarrow> structField list \<Rightarrow> structField list" where
  "inversedFields G [] out = out"
| "inversedFields G (r # rs) out =
     (case rel_Type r of
        RelationshipTypeOneToMany \<Rightarrow>
          inversedFields G rs
            (out @ [\<lparr>sf_Name = Public G (or (rel_OwnerName r) (ref_Name (rel_OwnerTable r))),
                     sf_Type = ''*'' @ Public G (ref_Name (rel_OwnerTable r)) @ ''Entity'',
                     sf_Tags = [], sf_ReadOnly = False\<rparr>])
      | RelationshipTypeOneToOne \<Rightarrow>
          inversedFields G rs
            (out @ [\<lparr>sf_Name = Public G (or (rel_OwnerName r) (ref_Name (rel_OwnerTable r))),
                     sf_Type = ''*'' @ Public G (ref_Name (rel_OwnerTable r)) @ ''Entity'',
                     sf_Tags = [], sf_ReadOnly = False\<rparr>])
      | RelationshipTypeManyToOne \<Rightarrow>
          inversedFields G rs
            (out @ [\<lparr>sf_Name = Public G (or (rel_OwnerName r) (ref_Name (rel_OwnerTable r) @ ''s'')),
                     sf_Type = ''[]*'' @ Public G (ref_Name (rel_OwnerTable r)) @ ''Entity'',
                     sf_Tags = [], sf_ReadOnly = False\<rparr>])
      | _ \<Rightarrow> inversedFields G rs out)"

text \<open>
  The last loop compares the tables of the relationship with \<^verbatim>\<open>t\<close> as pointers:
  \<open>tAddr\<close> is the address of the table whose entity is generated.
\<close>

fun manyToManyFields ::
  "gogen \<Rightarrow> nat \<Rightarrow> Relationship list \<Rightarrow> structField list \<Rightarrow> structField list" where
  "manyToManyFields G tAddr [] out = out"
| "manyToManyFields G tAddr (r # rs) out =
     (if rel_Type r \<noteq> RelationshipTypeManyToMany then manyToManyFields G tAddr rs out
      else if ref_Addr (rel_OwnerTable r) = tAddr then
        manyToManyFields G tAddr rs
          (out @ [\<lparr>sf_Name = Public G (or (rel_InversedName r) (ref_Name (rel_InversedTable r) @ ''s'')),
                   sf_Type = ''[]*'' @ Public G (ref_Name (rel_InversedTable r)) @ ''Entity'',
                   sf_Tags = [], sf_ReadOnly = False\<rparr>])
      else if ref_Addr (rel_InversedTable r) = tAddr then
        manyToManyFields G tAddr rs
          (out @ [\<lparr>sf_Name = Public G (or (rel_OwnerName r) (ref_Name (rel_OwnerTable r) @ ''s'')),
                   sf_Type = ''[]*'' @ Public G (ref_Name (rel_OwnerTable r)) @ ''Entity'',
                   sf_Tags = [], sf_ReadOnly = False\<rparr>])
      else manyToManyFields G tAddr rs out)"

definition entityPropertiesGenerator :: "gogen \<Rightarrow> nat \<Rightarrow> Table \<Rightarrow> structField list" where
  "entityPropertiesGenerator G tAddr t =
     (let out = columnsFields G (tbl_Columns t) [];
          out = ownedFields G (tbl_OwnedRelationships t) out;
          out = inversedFields G (tbl_InversedRelationships t) out;
          out = manyToManyFields G tAddr (tbl_ManyToManyRelationships t) out
      in out)"

subsection \<open>The generated constructor of criteria combinators\<close>

text \<open>
  \<^verbatim>\<open>Generator.Operand\<close> prints the Go function \<^verbatim>\<open>%sOperand\<close> (lines 104 to 122 of
  the template). The model is of that function: criteria nodes live in a heap and are
  named by their address, \<open>None\<close> is the nil pointer. The per-column fields of a node are
  left out: the function does not touch them.
\<close>

record Criteria =
  operator :: string
  child :: "nat option"
  sibling :: "nat option"
  parent :: "nat option"

record heap =
  cells :: "nat \<Rightarrow> Criteria"
  fresh :: nat

text \<open>\<^verbatim>\<open>&Criteria{...}\<close>: a new node at the next free address.\<close>

definition alloc :: "heap \<Rightarrow> Criteria \<Rightarrow> heap \<times> nat" where
  "alloc h c = (\<lparr>cells = (cells h)(fresh h := c), fresh = fresh h + 1\<rparr>, fresh h)"

function operandLoop :: "heap \<Rightarrow> nat option list \<Rightarrow> nat \<Rightarrow> nat \<Rightarrow> error + heap" where
  "operandLoop h operands p i =
     (if i < length operands then
        (case operands ! i of
           None \<Rightarrow> Inl NilPointerDereference
         | Some a \<Rightarrow>
             let h = (if int i < int (length operands) - 1
                      then h\<lparr>cells := (cells h)(a := (cells h a)\<lparr>sibling := operands ! (i + 1)\<rparr>)\<rparr>
                      else h);
                 h = h\<lparr>cells := (cells h)(a := (cells h a)\<lparr>parent := Some p\<rparr>)\<rparr>
             in operandLoop h operands p (i + 1))
      else Inr h)"
  by pat_completeness auto
termination
  by (relation "measure (\<lambda>(h, operands, p, i). length operands - i)") auto

declare operandLoop.simps [simp del]

definition Operand :: "heap \<Rightarrow> string \<Rightarrow> nat option list \<Rightarrow> error + heap \<times> nat" where
  "Operand h operator' operands =
     (if length operands = 0 then
        Inr (alloc h \<lparr>operator = operator', child = None, sibling = None, parent = None\<rparr>)
      else
        (case alloc h \<lparr>operator = operator', child = operands ! 0, sibling = None,
                        parent = None\<rparr> of
           (h, p) \<Rightarrow>
             (case operandLoop h operands p 0 of
                Inl err \<Rightarrow> Inl err
              | Inr h \<Rightarrow> Inr (h, p))))"

section \<open>The statements of the specification\<close>

text \<open>
  The definitions of this section follow the words of the specification, not the code: they
  say what the emitted text is made of, and the theorems compare them with the emitters.
\<close>

subsection \<open>Pieces of the emitted SQL\<close>

text \<open>The clause \<^verbatim>\<open>ON DELETE\<close> or \<^verbatim>\<open>ON UPDATE\<close>: present when an action is set.\<close>

definition actionText :: "Action \<Rightarrow> string option" where
  "actionText a =
     (case a of
        Cascade \<Rightarrow> Some ''CASCADE''
      | Restrict \<Rightarrow> Some ''RESTRICT''
      | SetNull \<Rightarrow> Some ''SET NULL''
      | SetDefault \<Rightarrow> Some ''SET DEFAULT''
      | NoAction \<Rightarrow> None)"

definition actionClause :: "string \<Rightarrow> Action \<Rightarrow> string" where
  "actionClause event a =
     (case actionText a of None \<Rightarrow> [] | Some txt \<Rightarrow> '' ON '' @ event @ '' '' @ txt)"

text \<open>The existence guard of a standalone index statement, and its predicate.\<close>

definition existenceGuard :: "float64 \<Rightarrow> string" where
  "existenceGuard ver = (if float64_ge ver (19 / 2) then ''IF NOT EXISTS '' else [])"

definition whereClause :: "Constraint \<Rightarrow> string" where
  "whereClause c = (if cn_Where c = [] then [] else '' WHERE '' @ cn_Where c)"

text \<open>The first line of a table block.\<close>

definition tableHeader :: "Table \<Rightarrow> string" where
  "tableHeader t =
     ''CREATE '' @ (if tbl_Temporary t then ''TEMPORARY '' else []) @ ''TABLE ''
       @ (if tbl_IfNotExists t then ''IF NOT EXISTS '' else [])
       @ (case tbl_Schema t of Some schemaName \<Rightarrow> schemaName @ ''.'' | None \<Rightarrow> [])
       @ tbl_Name t @ '' ('' @ nl"

text \<open>The statement \<^verbatim>\<open>CREATE SCHEMA\<close>, present when the schema has a name.\<close>

definition schemaStatement :: "Schema \<Rightarrow> string" where
  "schemaStatement s =
     (if sch_Name s = [] then []
      else ''CREATE SCHEMA '' @ (if sch_IfNotExists s then ''IF NOT EXISTS '' else [])
             @ sch_Name s @ ''; '' @ nl @ nl)"

text \<open>
  The standalone statement of one constraint: that of an index or of a unique index, with
  the existence guard, and for a unique index the predicate; no text for any other type.
\<close>

definition standaloneStatement :: "pqt \<Rightarrow> float64 \<Rightarrow> Constraint \<Rightarrow> string" where
  \<open>standaloneStatement X ver c =
     (if cn_Type c = ConstraintTypeIndex then
        ''CREATE INDEX '' @ existenceGuard ver @ ''"'' @ Constraint_Name X c @ ''" ON ''
          @ Table_FullName X (cn_PrimaryTable c) @ '' (''
          @ Columns_String X (cn_PrimaryColumns c) @ '');'' @ nl
      else if cn_Type c = ConstraintTypeUniqueIndex then
        ''CREATE UNIQUE INDEX '' @ existenceGuard ver @ ''"'' @ Constraint_Name X c @ ''" ON ''
          @ Table_FullName X (cn_PrimaryTable c) @ '' (''
          @ Columns_String X (cn_PrimaryColumns c) @ '')'' @ whereClause c @ '';'' @ nl
      else [])\<close>

subsection \<open>The block of a function\<close>

text \<open>The arguments, \<open>name type\<close> each, with a comma before every one but the first.\<close>

definition argumentText :: "pqt \<Rightarrow> FunctionArg \<Rightarrow> string" where
  "argumentText X a = arg_Name a @ '' '' @ Type_String X (arg_Type a)"

definition argumentList :: "pqt \<Rightarrow> FunctionArg list \<Rightarrow> string" where
  "argumentList X args =
     (case args of
        [] \<Rightarrow> []
      | a # rest \<Rightarrow> argumentText X a @ concat (map (\<lambda>b. '', '' @ argumentText X b) rest))"

definition behaviourClause :: "FunctionBehaviour \<Rightarrow> string" where
  "behaviourClause b =
     (case b of
        FunctionBehaviourVolatile \<Rightarrow> nl @ tab @ ''VOLATILE''
      | FunctionBehaviourImmutable \<Rightarrow> nl @ tab @ ''IMMUTABLE''
      | FunctionBehaviourStable \<Rightarrow> nl @ tab @ ''STABLE''
      | FunctionBehaviourUnspecified \<Rightarrow> [])"

definition functionText :: "pqt \<Rightarrow> Function \<Rightarrow> string" where
  "functionText X f =
     ''CREATE OR REPLACE FUNCTION '' @ fn_Name f @ ''('' @ argumentList X (fn_Args f)
       @ '') RETURNS '' @ Type_String X (fn_Type f) @ nl
       @ tab @ ''AS '' @ [CHR 0x27] @ fn_Body f @ [CHR 0x27] @ nl
       @ tab @ ''LANGUAGE SQL'' @ behaviourClause (fn_Behaviour f) @ '';'' @ nl @ nl"

text \<open>The section of one entry of the list of functions: a nil entry has none.\<close>

definition functionSection :: "pqt \<Rightarrow> Function option \<Rightarrow> string" where
  "functionSection X f' = (case f' of None \<Rightarrow> [] | Some f \<Rightarrow> functionText X f)"

subsection \<open>The working list of constraints\<close>

text \<open>
  What one owned relationship adds to the working list: its foreign key, unless it has
  exactly one owner column or no foreign key.
\<close>

definition synthesizedForeignKey :: "Relationship \<Rightarrow> Constraint list" where
  "synthesizedForeignKey r =
     (if length (rel_OwnerColumns r) = 1 then []
      else case rel_OwnerForeignKey r of None \<Rightarrow> [] | Some fk \<Rightarrow> [fk])"

text \<open>The declared constraints, then the synthesized ones in the order of the relationships.\<close>

definition workingList :: "Table \<Rightarrow> Constraint list" where
  "workingList t =
     elems (tbl_Constraints t) @ concat (map synthesizedForeignKey (tbl_OwnedRelationships t))"

subsection \<open>The block of a table\<close>

text \<open>
  The line of a column; a dynamic column has none. Whether the line ends with a comma is
  the argument \<open>comma\<close>.
\<close>

definition columnText :: "pqt \<Rightarrow> bool \<Rightarrow> Column \<Rightarrow> string" where
  "columnText X comma c =
     (if col_IsDynamic c then []
      else tab @ col_Name c @ '' '' @ Type_String X (col_Type c)
             @ (if col_Collate c = [] then [] else '' '' @ col_Collate c)
             @ (case DefaultOn c EventInsert of None \<Rightarrow> [] | Some d \<Rightarrow> '' DEFAULT '' @ d)
             @ (if col_NotNull c then '' NOT NULL'' else [])
             @ (if comma then '','' else []) @ nl)"

text \<open>
  The lines of the columns, in the declared order. The comma is placed as the emitter
  places it, by the position of the column in the declared list: on every column but the
  last declared one, and on that one too when an inline constraint follows (\<open>nb\<close> is the
  number of inline constraints).
\<close>

definition columnLines :: "pqt \<Rightarrow> int \<Rightarrow> Column list \<Rightarrow> string" where
  "columnLines X nb cols =
     concat (map (\<lambda>(i, c). columnText X (int i < int (length cols) - 1 \<or> 0 < nb) c)
                 (enumerate 0 cols))"

text \<open>The text of an inline constraint, by its type.\<close>

definition constraintText :: "pqt \<Rightarrow> Constraint \<Rightarrow> string" where
  \<open>constraintText X c =
     (case cn_Type c of
        ConstraintTypeUnique \<Rightarrow>
          ''CONSTRAINT "'' @ Constraint_Name X c @ ''" UNIQUE (''
            @ JoinColumns X (cn_PrimaryColumns c) '', '' @ '')''
      | ConstraintTypePrimaryKey \<Rightarrow>
          ''CONSTRAINT "'' @ Constraint_Name X c @ ''" PRIMARY KEY (''
            @ JoinColumns X (cn_PrimaryColumns c) '', '' @ '')''
      | ConstraintTypeForeignKey \<Rightarrow>
          ''CONSTRAINT "'' @ Constraint_Name X c @ ''" FOREIGN KEY (''
            @ JoinColumns X (cn_PrimaryColumns c) '', '' @ '') REFERENCES ''
            @ (case cn_Table c of None \<Rightarrow> [] | Some rt \<Rightarrow> Table_FullName X rt)
            @ '' ('' @ JoinColumns X (cn_Columns c) '', '' @ '')''
            @ actionClause ''DELETE'' (cn_OnDelete c) @ actionClause ''UPDATE'' (cn_OnUpdate c)
      | ConstraintTypeCheck \<Rightarrow>
          ''CONSTRAINT "'' @ Constraint_Name X c @ ''" CHECK ('' @ cn_Check c @ '')''
      | _ \<Rightarrow> [])\<close>

text \<open>The constraints written inside the table block: all but the indexes.\<close>

definition inlineConstraint :: "Constraint \<Rightarrow> bool" where
  "inlineConstraint c =
     (cn_Type c \<noteq> ConstraintTypeIndex \<and> cn_Type c \<noteq> ConstraintTypeUniqueIndex)"

text \<open>Their lines, one each, in the order of the working list, with a comma on all but the last.\<close>

definition constraintLines :: "pqt \<Rightarrow> int \<Rightarrow> Constraint list \<Rightarrow> string" where
  "constraintLines X nb cs =
     concat (map (\<lambda>(i, c). tab @ constraintText X c @ (if int i < nb - 1 then '','' else []) @ nl)
                 (enumerate 0 (filter inlineConstraint cs)))"

definition tableText :: "pqt \<Rightarrow> Table \<Rightarrow> string" where
  "tableText X t =
     (let nb = CountOf (workingList t)
                 [ConstraintTypePrimaryKey, ConstraintTypeCheck, ConstraintTypeUnique,
                  ConstraintTypeForeignKey, ConstraintTypeExclusion]
      in tableHeader t @ columnLines X nb (tbl_Columns t) @ (if 0 < nb then nl else [])
           @ constraintLines X nb (workingList t) @ '');'' @ nl)"

subsection \<open>The whole output\<close>

text \<open>
  The section of a table: its block, the standalone statements of its declared constraints
  in their order, and a blank line.
\<close>

definition tableSection :: "pqt \<Rightarrow> float64 \<Rightarrow> Table \<Rightarrow> string" where
  "tableSection X ver t =
     tableText X t @ concat (map (standaloneStatement X ver) (elems (tbl_Constraints t))) @ nl"

text \<open>
  The output for a schema: the banner, the statement of the schema, the sections of the
  functions and the sections of the tables, each list in its declared order.
\<close>

definition schemaText :: "pqt \<Rightarrow> float64 \<Rightarrow> Schema \<Rightarrow> string" where
  "schemaText X ver s =
     ''-- do not modify, generated by pqt'' @ nl @ nl @ schemaStatement s
       @ concat (map (functionSection X) (sch_Functions s))
       @ concat (map (\<lambda>t. tableSection X ver (the t)) (sch_Tables s))"

subsection \<open>Schemas that are rejected, schemas that are accepted\<close>


text \<open>
  A function with no name; a table with no name, no column or, in its working list, a
  constraint of unknown type.
\<close>

definition malformedFunction :: "Function option \<Rightarrow> bool" where
  "malformedFunction f' = (case f' of None \<Rightarrow> False | Some f \<Rightarrow> fn_Name f = [])"



text \<open>
  A schema is accepted when every function has a name, no table is nil, every table has a
  name and a column, and every constraint of its working list can be rendered: it is of a
  type that the emitter writes (an exclusion is not) and, for a foreign key, has local
  columns, referenced columns and a referenced table.
\<close>

definition renderable :: "Constraint \<Rightarrow> bool" where
  "renderable c =
     (case cn_Type c of
        ConstraintTypeForeignKey \<Rightarrow>
          cn_PrimaryColumns c \<noteq> [] \<and> cn_Columns c \<noteq> [] \<and> cn_Table c \<noteq> None
      | ConstraintTypeExclusion \<Rightarrow> False
      | ConstraintTypeOther x \<Rightarrow> False
      | _ \<Rightarrow> True)"

definition acceptedTable :: "Table option \<Rightarrow> bool" where
  "acceptedTable t' =
     (case t' of
        None \<Rightarrow> False
      | Some t \<Rightarrow>
          tbl_Name t \<noteq> [] \<and> tbl_Columns t \<noteq> [] \<and> list_all renderable (workingList t))"

definition accepted :: "Schema \<Rightarrow> bool" where
  "accepted s =
     (\<not> list_ex malformedFunction (sch_Functions s) \<and> list_all acceptedTable (sch_Tables s))"

subsection \<open>Fields of an entity\<close>

definition singleField :: "gogen \<Rightarrow> string \<Rightarrow> TableRef \<Rightarrow> structField" where
  "singleField G override other =
     \<lparr>sf_Name = Public G (or override (ref_Name other)),
      sf_Type = ''*'' @ Public G (ref_Name other) @ ''Entity'',
      sf_Tags = [], sf_ReadOnly = False\<rparr>"

definition collectionField :: "gogen \<Rightarrow> string \<Rightarrow> TableRef \<Rightarrow> structField" where
  "collectionField G override other =
     \<lparr>sf_Name = Public G (or override (ref_Name other @ ''s'')),
      sf_Type = ''[]*'' @ Public G (ref_Name other) @ ''Entity'',
      sf_Tags = [], sf_ReadOnly = False\<rparr>"

definition columnField :: "gogen \<Rightarrow> Column \<Rightarrow> structField" where
  "columnField G c =
     \<lparr>sf_Name = Public G (col_Name c), sf_Type = columnType G c ModeDefault,
      sf_Tags = [], sf_ReadOnly = col_IsDynamic c\<rparr>"

definition ownedField :: "gogen \<Rightarrow> Relationship \<Rightarrow> structField list" where
  "ownedField G r =
     (case rel_Type r of
        RelationshipTypeOneToMany \<Rightarrow> [collectionField G (rel_InversedName r) (rel_InversedTable r)]
      | RelationshipTypeOneToOne \<Rightarrow> [singleField G (rel_InversedName r) (rel_InversedTable r)]
      | RelationshipTypeManyToOne \<Rightarrow> [singleField G (rel_InversedName r) (rel_InversedTable r)]
      | _ \<Rightarrow> [])"

definition inversedField :: "gogen \<Rightarrow> Relationship \<Rightarrow> structField list" where
  "inversedField G r =
     (case rel_Type r of
        RelationshipTypeOneToMany \<Rightarrow> [singleField G (rel_OwnerName r) (rel_OwnerTable r)]
      | RelationshipTypeOneToOne \<Rightarrow> [singleField G (rel_OwnerName r) (rel_OwnerTable r)]
      | RelationshipTypeManyToOne \<Rightarrow> [collectionField G (rel_OwnerName r) (rel_OwnerTable r)]
      | _ \<Rightarrow> [])"

definition manyToManyField :: "gogen \<Rightarrow> nat \<Rightarrow> Relationship \<Rightarrow> structField list" where
  "manyToManyField G tAddr r =
     (if rel_Type r \<noteq> RelationshipTypeManyToMany then []
      else if ref_Addr (rel_OwnerTable r) = tAddr
      then [collectionField G (rel_InversedName r) (rel_InversedTable r)]
      else if ref_Addr (rel_InversedTable r) = tAddr
      then [collectionField G (rel_OwnerName r) (rel_OwnerTable r)]
      else [])"

section \<open>Example inputs\<close>

text \<open>
  Concrete values at which the theorems are evaluated. \<open>example_pqt\<close> gives the missing
  methods of package \<^verbatim>\<open>pqt\<close> one possible behaviour: names joined by the separator, a
  type rendered as its tag.
\<close>

fun joinStrings :: "string \<Rightarrow> string list \<Rightarrow> string" where
  "joinStrings sep [] = []"
| "joinStrings sep [x] = x"
| "joinStrings sep (x # y # zs) = x @ sep @ joinStrings sep (y # zs)"

definition example_pqt :: pqt where
  "example_pqt =
     \<lparr>Constraint_Name = (\<lambda>c. ref_Name (cn_PrimaryTable c) @ ''_'' @
                             joinStrings ''_'' (map col_Name (cn_PrimaryColumns c))),
      Table_FullName = ref_Name,
      JoinColumns = (\<lambda>cs sep. joinStrings sep (map col_Name cs)),
      Columns_String = (\<lambda>cs. joinStrings '', '' (map col_Name cs)),
      Type_String = (\<lambda>t. case t of PType txt \<Rightarrow> txt)\<rparr>"

definition col_id :: Column where
  "col_id = \<lparr>col_Name = ''id'', col_Type = PType ''BIGINT'', col_Collate = [],
             col_Default = [], col_NotNull = True, col_IsDynamic = False\<rparr>"

definition col_name :: Column where
  "col_name = \<lparr>col_Name = ''name'', col_Type = PType ''TEXT'', col_Collate = [],
               col_Default = [], col_NotNull = False, col_IsDynamic = False\<rparr>"

definition col_total :: Column where
  "col_total = \<lparr>col_Name = ''total'', col_Type = PType ''BIGINT'', col_Collate = [],
                col_Default = [], col_NotNull = False, col_IsDynamic = True\<rparr>"

definition ref_author :: TableRef where
  "ref_author = \<lparr>ref_Addr = 1, ref_Name = ''author''\<rparr>"

definition ref_book :: TableRef where
  "ref_book = \<lparr>ref_Addr = 2, ref_Name = ''book''\<rparr>"

definition cn_index :: Constraint where
  "cn_index = \<lparr>cn_Type = ConstraintTypeIndex, cn_PrimaryTable = ref_author, cn_Table = None,
               cn_PrimaryColumns = [col_name], cn_Columns = [], cn_Check = [], cn_Where = [],
               cn_OnDelete = NoAction, cn_OnUpdate = NoAction\<rparr>"

definition cn_unique_index :: Constraint where
  "cn_unique_index = cn_index\<lparr>cn_Type := ConstraintTypeUniqueIndex, cn_Where := ''id > 0''\<rparr>"

definition cn_pkey :: Constraint where
  "cn_pkey = cn_index\<lparr>cn_Type := ConstraintTypePrimaryKey, cn_PrimaryColumns := [col_id]\<rparr>"

definition cn_fkey :: Constraint where
  "cn_fkey = \<lparr>cn_Type = ConstraintTypeForeignKey, cn_PrimaryTable = ref_book,
              cn_Table = Some ref_author, cn_PrimaryColumns = [col_id], cn_Columns = [col_id],
              cn_Check = [], cn_Where = [], cn_OnDelete = Cascade, cn_OnUpdate = SetNull\<rparr>"

definition tbl_author :: Table where
  "tbl_author =
     \<lparr>tbl_Name = ''author'', tbl_Schema = None, tbl_Columns = [col_id, col_name],
      tbl_Constraints = \<lparr>elems = [cn_pkey, cn_index], spare = []\<rparr>,
      tbl_Temporary = False, tbl_IfNotExists = True,
      tbl_OwnedRelationships = [], tbl_InversedRelationships = [],
      tbl_ManyToManyRelationships = []\<rparr>"

definition fn_now :: Function where
  "fn_now = \<lparr>fn_Name = ''now_utc'', fn_Args = [], fn_Type = PType ''TIMESTAMP'',
             fn_Body = ''SELECT 1'', fn_Behaviour = FunctionBehaviourStable\<rparr>"

definition sch_example :: Schema where
  "sch_example = \<lparr>sch_Name = ''app'', sch_IfNotExists = True,
                  sch_Functions = [None, Some fn_now], sch_Tables = [Some tbl_author]\<rparr>"

definition tbl_report :: Table where
  "tbl_report =
     \<lparr>tbl_Name = ''report'', tbl_Schema = None, tbl_Columns = [col_id, col_total],
      tbl_Constraints = \<lparr>elems = [], spare = []\<rparr>,
      tbl_Temporary = False, tbl_IfNotExists = False,
      tbl_OwnedRelationships = [], tbl_InversedRelationships = [],
      tbl_ManyToManyRelationships = []\<rparr>"

definition gen94 :: Generator where
  "gen94 = \<lparr>Version = Finite (47 / 5)\<rparr>"

definition gen95 :: Generator where
  "gen95 = \<lparr>Version = Finite (19 / 2)\<rparr>"

text \<open>A table with an index and a unique index with a predicate, and its schema.\<close>

definition tbl_indexed :: Table where
  "tbl_indexed =
     tbl_author\<lparr>tbl_Constraints := \<lparr>elems = [cn_pkey, cn_index, cn_unique_index], spare = []\<rparr>\<rparr>"

definition sch_indexed :: Schema where
  "sch_indexed = sch_example\<lparr>sch_Tables := [Some tbl_indexed]\<rparr>"

text \<open>The text expected for it, with the existence guard left open.\<close>

definition sql_indexed :: "string \<Rightarrow> string" where
  \<open>sql_indexed guard =
     ''-- do not modify, generated by pqt'' @ nl @ nl
       @ ''CREATE SCHEMA IF NOT EXISTS app; '' @ nl @ nl
       @ ''CREATE OR REPLACE FUNCTION now_utc() RETURNS TIMESTAMP'' @ nl
       @ tab @ ''AS '' @ [CHR 0x27] @ ''SELECT 1'' @ [CHR 0x27] @ nl
       @ tab @ ''LANGUAGE SQL'' @ nl
       @ tab @ ''STABLE;'' @ nl @ nl
       @ ''CREATE TABLE IF NOT EXISTS author ('' @ nl
       @ tab @ ''id BIGINT NOT NULL,'' @ nl
       @ tab @ ''name TEXT,'' @ nl
       @ nl
       @ tab @ ''CONSTRAINT "author_id" PRIMARY KEY (id)'' @ nl
       @ '');'' @ nl
       @ ''CREATE INDEX '' @ guard @ ''"author_name" ON author (name);'' @ nl
       @ ''CREATE UNIQUE INDEX '' @ guard @ ''"author_name" ON author (name) WHERE id > 0;'' @ nl
       @ nl\<close>

text \<open>A schema with two functions, the first nil, and two tables.\<close>

definition fn_add :: Function where
  "fn_add = \<lparr>fn_Name = ''add'',
              fn_Args = [\<lparr>arg_Name = ''a'', arg_Type = PType ''BIGINT''\<rparr>,
                         \<lparr>arg_Name = ''b'', arg_Type = PType ''BIGINT''\<rparr>],
              fn_Type = PType ''BIGINT'', fn_Body = ''SELECT a + b'',
              fn_Behaviour = FunctionBehaviourImmutable\<rparr>"

definition sch_library :: Schema where
  "sch_library = \<lparr>sch_Name = ''library'', sch_IfNotExists = False,
                  sch_Functions = [None, Some fn_now, Some fn_add],
                  sch_Tables = [Some tbl_indexed, Some tbl_report]\<rparr>"

definition sql_library :: string where
  \<open>sql_library =
     ''-- do not modify, generated by pqt'' @ nl @ nl
       @ ''CREATE SCHEMA library; '' @ nl @ nl
       @ ''CREATE OR REPLACE FUNCTION now_utc() RETURNS TIMESTAMP'' @ nl
       @ tab @ ''AS '' @ [CHR 0x27] @ ''SELECT 1'' @ [CHR 0x27] @ nl
       @ tab @ ''LANGUAGE SQL'' @ nl
       @ tab @ ''STABLE;'' @ nl @ nl
       @ ''CREATE OR REPLACE FUNCTION add(a BIGINT, b BIGINT) RETURNS BIGINT'' @ nl
       @ tab @ ''AS '' @ [CHR 0x27] @ ''SELECT a + b'' @ [CHR 0x27] @ nl
       @ tab @ ''LANGUAGE SQL'' @ nl
       @ tab @ ''IMMUTABLE;'' @ nl @ nl
       @ ''CREATE TABLE IF NOT EXISTS author ('' @ nl
       @ tab @ ''id BIGINT NOT NULL,'' @ nl
       @ tab @ ''name TEXT,'' @ nl
       @ nl
       @ tab @ ''CONSTRAINT "author_id" PRIMARY KEY (id)'' @ nl
       @ '');'' @ nl
       @ ''CREATE INDEX IF NOT EXISTS "author_name" ON author (name);'' @ nl
       @ ''CREATE UNIQUE INDEX IF NOT EXISTS "author_name" ON author (name) WHERE id > 0;'' @ nl
       @ nl
       @ ''CREATE TABLE report ('' @ nl
       @ tab @ ''id BIGINT NOT NULL,'' @ nl
       @ '');'' @ nl
       @ nl\<close>

text \<open>Schemas with a flaw: no name; a table with no column; a constraint of unknown type.\<close>

definition sch_unnamed :: Schema where
  "sch_unnamed = \<lparr>sch_Name = [], sch_IfNotExists = False, sch_Functions = [],
                  sch_Tables = [Some tbl_report]\<rparr>"

definition sch_nocolumns :: Schema where
  "sch_nocolumns = sch_example\<lparr>sch_Tables := [Some (tbl_author\<lparr>tbl_Columns := []\<rparr>)]\<rparr>"

definition cn_unknown :: Constraint where
  "cn_unknown = cn_index\<lparr>cn_Type := ConstraintTypeOther ''TRIGGER''\<rparr>"

definition sch_unknown :: Schema where
  "sch_unknown =
     sch_example\<lparr>sch_Tables :=
       [Some (tbl_author\<lparr>tbl_Constraints := \<lparr>elems = [cn_pkey, cn_unknown], spare = []\<rparr>\<rparr>)]\<rparr>"

text \<open>
  Relationships owned by a table \<open>book\<close>: one with a single owner column, one with two,
  one with none. The slice of the declared constraints has a spare cell.
\<close>

definition cn_book_pkey :: Constraint where
  "cn_book_pkey = cn_pkey\<lparr>cn_PrimaryTable := ref_book\<rparr>"

definition cn_fkey_composite :: Constraint where
  "cn_fkey_composite =
     cn_fkey\<lparr>cn_PrimaryColumns := [col_id, col_name], cn_Columns := [col_id, col_name],
             cn_OnDelete := NoAction, cn_OnUpdate := NoAction\<rparr>"

definition rel_composite :: Relationship where
  "rel_composite =
     \<lparr>rel_Type = RelationshipTypeManyToOne, rel_OwnerTable = ref_book,
      rel_InversedTable = ref_author, rel_OwnerName = [], rel_InversedName = [],
      rel_OwnerColumns = [col_id, col_name], rel_OwnerForeignKey = Some cn_fkey_composite\<rparr>"

definition rel_single :: Relationship where
  "rel_single = rel_composite\<lparr>rel_OwnerColumns := [col_id], rel_OwnerForeignKey := Some cn_fkey\<rparr>"

definition rel_detached :: Relationship where
  "rel_detached = rel_composite\<lparr>rel_OwnerColumns := [], rel_OwnerForeignKey := Some cn_fkey\<rparr>"

definition tbl_book :: Table where
  "tbl_book =
     \<lparr>tbl_Name = ''book'', tbl_Schema = Some ''library'', tbl_Columns = [col_id, col_name],
      tbl_Constraints = \<lparr>elems = [cn_book_pkey], spare = [cn_index]\<rparr>,
      tbl_Temporary = False, tbl_IfNotExists = False,
      tbl_OwnedRelationships = [rel_single, rel_composite], tbl_InversedRelationships = [],
      tbl_ManyToManyRelationships = []\<rparr>"

definition sql_book :: string where
  \<open>sql_book =
     ''CREATE TABLE library.book ('' @ nl
       @ tab @ ''id BIGINT NOT NULL,'' @ nl
       @ tab @ ''name TEXT,'' @ nl
       @ nl
       @ tab @ ''CONSTRAINT "book_id" PRIMARY KEY (id),'' @ nl
       @ tab @ ''CONSTRAINT "book_id_name" FOREIGN KEY (id, name) REFERENCES author (id, name)'' @ nl
       @ '');'' @ nl\<close>

definition tbl_detached :: Table where
  "tbl_detached = tbl_book\<lparr>tbl_OwnedRelationships := [rel_detached]\<rparr>"

text \<open>
  Entities. \<open>partial_gogen\<close> gives the missing helpers of the source emitter one possible
  behaviour: names are kept as they are, and \<^verbatim>\<open>columnType\<close> knows two column types and
  answers \<^verbatim>\<open><nil>\<close> for any other.
\<close>

definition partial_gogen :: gogen where
  "partial_gogen =
     \<lparr>Public = (\<lambda>n. n),
      columnType = (\<lambda>c m. case col_Type c of PType txt \<Rightarrow>
                      if txt = ''BIGINT'' then ''int64''
                      else if txt = ''TEXT'' then ''string'' else ''<nil>'')\<rparr>"

definition col_shape :: Column where
  "col_shape = \<lparr>col_Name = ''shape'', col_Type = PType ''GEOMETRY'', col_Collate = [],
                col_Default = [], col_NotNull = False, col_IsDynamic = False\<rparr>"

definition tbl_place :: Table where
  "tbl_place = tbl_report\<lparr>tbl_Name := ''place'', tbl_Columns := [col_id, col_shape]\<rparr>"

definition rel_books :: Relationship where
  "rel_books =
     \<lparr>rel_Type = RelationshipTypeOneToMany, rel_OwnerTable = ref_author,
      rel_InversedTable = ref_book, rel_OwnerName = [], rel_InversedName = [],
      rel_OwnerColumns = [col_id], rel_OwnerForeignKey = None\<rparr>"

definition rel_tags :: Relationship where
  "rel_tags = rel_books\<lparr>rel_Type := RelationshipTypeManyToMany, rel_OwnerName := ''Writers''\<rparr>"

definition ent_author :: Table where
  "ent_author = tbl_author\<lparr>tbl_OwnedRelationships := [rel_books],
                            tbl_ManyToManyRelationships := [rel_tags]\<rparr>"

definition ent_book :: Table where
  "ent_book = tbl_book\<lparr>tbl_OwnedRelationships := [], tbl_InversedRelationships := [rel_books],
                        tbl_ManyToManyRelationships := [rel_tags]\<rparr>"

text \<open>Criteria: a heap of three leaves at the addresses 0, 1 and 2.\<close>

definition leaf :: Criteria where
  "leaf = \<lparr>operator = [], child = None, sibling = None, parent = None\<rparr>"

definition heap3 :: heap where
  "heap3 = \<lparr>cells = (\<lambda>a. leaf), fresh = 3\<rparr>"

section \<open>Properties\<close>

lemmas example_defs = example_pqt_def col_id_def col_name_def col_total_def ref_author_def
  ref_book_def cn_index_def cn_unique_index_def cn_pkey_def cn_fkey_def tbl_author_def
  fn_now_def sch_example_def tbl_report_def gen94_def gen95_def tbl_indexed_def
  sch_indexed_def fn_add_def sch_library_def sch_unnamed_def sch_nocolumns_def cn_unknown_def
  sch_unknown_def cn_book_pkey_def cn_fkey_composite_def rel_composite_def rel_single_def
  rel_detached_def tbl_book_def tbl_detached_def

subsection \<open>Foreign keys\<close>

text \<open>
  Claim C4. A foreign key with at least one local column, at least one referenced column
  and a referenced table is rendered as
  \<^verbatim>\<open>CONSTRAINT "<name>" FOREIGN KEY (<local cols>) REFERENCES <ref table> (<ref cols>)\<close>,
  followed by \<^verbatim>\<open> ON DELETE <action>\<close> exactly when the delete action is one of Cascade,
  Restrict, SetNull, SetDefault, then by \<^verbatim>\<open> ON UPDATE <action>\<close> exactly when the update
  action is one of them; with an empty column list or no referenced table, rendering fails
  with an error and writes nothing.
\<close>

theorem foreignKeyConstraintQuery_renders:
  \<open>foreignKeyConstraintQuery X buf c =
     (if cn_PrimaryColumns c = [] then Inl ForeignKeyNoColumn
      else if cn_Columns c = [] then Inl ForeignKeyNoReferenceColumn
      else case cn_Table c of
        None \<Rightarrow> Inl ForeignKeyMissingReferenceTable
      | Some rt \<Rightarrow>
          Inr (buf @ ''CONSTRAINT "'' @ Constraint_Name X c @ ''" FOREIGN KEY (''
                 @ JoinColumns X (cn_PrimaryColumns c) '', '' @ '') REFERENCES ''
                 @ Table_FullName X rt @ '' ('' @ JoinColumns X (cn_Columns c) '', '' @ '')''
                 @ actionClause ''DELETE'' (cn_OnDelete c)
                 @ actionClause ''UPDATE'' (cn_OnUpdate c)))\<close>
  by (cases "cn_OnDelete c"; cases "cn_OnUpdate c")
     (simp_all add: foreignKeyConstraintQuery_def actionClause_def actionText_def
        split: option.splits)

text \<open>
  The example of the specification: delete action Cascade and update action SetNull; and
  the same constraint with neither action.
\<close>

theorem foreignKeyConstraintQuery_renders_witness:
  \<open>foreignKeyConstraintQuery example_pqt [] cn_fkey =
     Inr (''CONSTRAINT "book_id" FOREIGN KEY (id) REFERENCES author (id)''
            @ '' ON DELETE CASCADE ON UPDATE SET NULL'') \<and>
   foreignKeyConstraintQuery example_pqt []
       (cn_fkey\<lparr>cn_OnDelete := NoAction, cn_OnUpdate := NoAction\<rparr>) =
     Inr ''CONSTRAINT "book_id" FOREIGN KEY (id) REFERENCES author (id)''\<close>
  using foreignKeyConstraintQuery_renders [of example_pqt "[]" cn_fkey]
    foreignKeyConstraintQuery_renders [of example_pqt "[]"
      "cn_fkey\<lparr>cn_OnDelete := NoAction, cn_OnUpdate := NoAction\<rparr>"]
  by (simp add: example_defs actionClause_def actionText_def)

subsection \<open>Commas of a table block\<close>

text \<open>
  Claim C2. In a table block the last emitted column line gets a comma only if an inline
  constraint follows, also when the last declared column is dynamic. The emitter decides
  the comma of a column by its index in the declared list: for the table \<open>report\<close> with
  the columns \<open>id\<close> and \<open>total\<close>, the second dynamic, and no constraint, it writes a comma
  after the line of \<open>id\<close>, the last line before \<^verbatim>\<open>);\<close>.
\<close>

theorem generateCreateTable_dynamic_last_column:
  "generateCreateTable example_pqt g [] (Some tbl_report) =
     Inr (''CREATE TABLE report ('' @ nl
            @ tab @ ''id BIGINT NOT NULL,'' @ nl
            @ '');'' @ nl)"
  by (simp add: generateCreateTable_def workingConstraints_def CountOf_def DefaultOn_def
        example_defs)

subsection \<open>Nil entries of a schema\<close>

text \<open>
  Claim C10. A nil function and a nil table are both accepted by their generators, which
  write nothing. The schema loop skips a nil function; after a nil table it reads the
  constraints of the table, so the run stops there with a nil pointer dereference and the
  tables that follow are not generated.
\<close>

theorem generate_nil_table:
  "generateCreateFunction X g buf None = Inr buf \<and>
   generateCreateTable X g buf None = Inr buf \<and>
   functionsLoop X g (None # fs) code = functionsLoop X g fs code \<and>
   tablesLoop X g (None # ts) code = Inl NilPointerDereference \<and>
   generate X g \<lparr>sch_Name = [], sch_IfNotExists = False, sch_Functions = [],
                  sch_Tables = [None, Some tbl_author]\<rparr> = Inl NilPointerDereference"
  by (simp add: generateCreateFunction_def generateCreateTable_def generate_def)

subsection \<open>The version of the target\<close>

lemma indexConstraintQuery_shape:
  \<open>indexConstraintQuery X buf c ver =
     buf @ ''CREATE INDEX '' @ existenceGuard ver @ ''"'' @ Constraint_Name X c @ ''" ON ''
       @ Table_FullName X (cn_PrimaryTable c) @ '' ('' @ Columns_String X (cn_PrimaryColumns c)
       @ '');'' @ nl\<close>
  by (simp add: indexConstraintQuery_def existenceGuard_def)

lemma uniqueIndexConstraintQuery_shape:
  \<open>uniqueIndexConstraintQuery X buf c ver =
     buf @ ''CREATE UNIQUE INDEX '' @ existenceGuard ver @ ''"'' @ Constraint_Name X c @ ''" ON ''
       @ Table_FullName X (cn_PrimaryTable c) @ '' ('' @ Columns_String X (cn_PrimaryColumns c)
       @ '')'' @ whereClause c @ '';'' @ nl\<close>
  by (simp add: uniqueIndexConstraintQuery_def existenceGuard_def whereClause_def)

lemma generateConstraint_version: "generateConstraint X g buf c = generateConstraint X g' buf c"
  by (simp add: generateConstraint_def)

lemma inlineLoop_version: "inlineLoop X g n i cs buf = inlineLoop X g' n i cs buf"
  by (induction cs arbitrary: i buf)
     (simp_all add: generateConstraint_version [of X g _ _ g'] split: sum.splits)

lemma generateCreateTable_version: "generateCreateTable X g buf t = generateCreateTable X g' buf t"
  unfolding generateCreateTable_def by (subst inlineLoop_version [of X g _ _ _ _ g']) (rule refl)

lemma generateCreateFunction_version:
  "generateCreateFunction X g buf f = generateCreateFunction X g' buf f"
  by (simp add: generateCreateFunction_def)

lemma functionsLoop_version: "functionsLoop X g fs code = functionsLoop X g' fs code"
  by (induction fs arbitrary: code)
     (simp_all add: generateCreateFunction_version [of X g _ _ g'] split: sum.splits)

lemma indexesLoop_version:
  "float64_ge (Version g) (19 / 2) = float64_ge (Version g') (19 / 2) \<Longrightarrow>
   indexesLoop X g cs code = indexesLoop X g' cs code"
  by (induction cs arbitrary: code)
     (simp_all add: indexConstraintQuery_def uniqueIndexConstraintQuery_def
        split: ConstraintType.splits)

lemma tablesLoop_version:
  "float64_ge (Version g) (19 / 2) = float64_ge (Version g') (19 / 2) \<Longrightarrow>
   tablesLoop X g ts code = tablesLoop X g' ts code"
  by (induction ts arbitrary: code)
     (simp_all add: generateCreateTable_version [of X g _ _ g'] indexesLoop_version [of g g']
        split: sum.splits option.splits)

lemma generate_version:
  assumes "float64_ge (Version g) (19 / 2) = float64_ge (Version g') (19 / 2)"
  shows "generate X g s = generate X g' s"
proof -
  have f: "\<And>fs code. functionsLoop X g fs code = functionsLoop X g' fs code"
    by (rule functionsLoop_version)
  have t: "\<And>ts code. tablesLoop X g ts code = tablesLoop X g' ts code"
    using assms by (rule tablesLoop_version)
  show ?thesis unfolding generate_def f t ..
qed

subsection \<open>Writes only append to the buffer\<close>

lemma argsLoop_append: "argsLoop X i args (buf @ b) = buf @ argsLoop X i args b"
  by (induction args arbitrary: i b) simp_all

lemma generateCreateFunction_append:
  "generateCreateFunction X g (buf @ b) f = map_sum id ((@) buf) (generateCreateFunction X g b f)"
  by (cases f; cases "fn_Behaviour (the f)")
     (simp_all add: generateCreateFunction_def argsLoop_append)

lemma columnsLoop_append:
  "columnsLoop X n nb i cs (buf @ b) = buf @ columnsLoop X n nb i cs b"
  by (induction cs arbitrary: i b) (simp_all add: Let_def split: option.splits)

lemma foreignKeyConstraintQuery_append:
  "foreignKeyConstraintQuery X (buf @ b) c =
     map_sum id ((@) buf) (foreignKeyConstraintQuery X b c)"
  by (cases "cn_OnDelete c"; cases "cn_OnUpdate c")
     (simp_all add: foreignKeyConstraintQuery_def split: option.splits)

lemma generateConstraint_append:
  "generateConstraint X g (buf @ b) c = map_sum id ((@) buf) (generateConstraint X g b c)"
  by (simp add: generateConstraint_def foreignKeyConstraintQuery_append
        uniqueConstraintQuery_def primaryKeyConstraintQuery_def checkConstraintQuery_def
        split: ConstraintType.splits)

lemma inlineLoop_append:
  "inlineLoop X g nb i cs (buf @ b) = map_sum id ((@) buf) (inlineLoop X g nb i cs b)"
proof (induction cs arbitrary: i b)
  case Nil
  show ?case by simp
next
  case (Cons c cs)
  show ?case
  proof (cases "generateConstraint X g (b @ tab) c")
    case (Inl e)
    then show ?thesis
      using generateConstraint_append [of X g buf "b @ tab" c] by (simp add: Cons.IH)
  next
    case (Inr b')
    then show ?thesis
      using generateConstraint_append [of X g buf "b @ tab" c] by (simp add: Cons.IH Let_def)
  qed
qed

text \<open>The table block with its first line folded into \<open>tableHeader\<close>.\<close>

lemma generateCreateTable_Some:
  "generateCreateTable X g buf (Some t) =
     (if tbl_Name t = [] then Inl MissingTableName
      else if length (tbl_Columns t) = 0 then Inl (TableHasNoColumns (tbl_Name t))
      else
        let constraints = elems (fst (workingConstraints t));
            nbOfConstraints = CountOf constraints
              [ConstraintTypePrimaryKey, ConstraintTypeCheck, ConstraintTypeUnique,
               ConstraintTypeForeignKey, ConstraintTypeExclusion];
            buf = columnsLoop X (int (length (tbl_Columns t))) nbOfConstraints 0
                    (tbl_Columns t) (buf @ tableHeader t);
            buf = (if nbOfConstraints > 0 then buf @ nl else buf)
        in (case inlineLoop X g nbOfConstraints 0 constraints buf of
              Inl err \<Rightarrow> Inl err
            | Inr buf \<Rightarrow> Inr (buf @ '');'' @ nl)))"
  by (cases "tbl_Temporary t"; cases "tbl_IfNotExists t"; cases "tbl_Schema t")
     (simp_all add: generateCreateTable_def tableHeader_def)

lemma generateCreateTable_append:
  "generateCreateTable X g (buf @ b) t = map_sum id ((@) buf) (generateCreateTable X g b t)"
proof (cases t)
  case None
  then show ?thesis by (simp add: generateCreateTable_def)
next
  case (Some tt)
  define cs where "cs = elems (fst (workingConstraints tt))"
  define nb where "nb = CountOf cs
              [ConstraintTypePrimaryKey, ConstraintTypeCheck, ConstraintTypeUnique,
               ConstraintTypeForeignKey, ConstraintTypeExclusion]"
  define cols where "cols b = columnsLoop X (int (length (tbl_Columns tt))) nb 0
                    (tbl_Columns tt) (b @ tableHeader tt)" for b
  have cols: "cols (buf @ b) = buf @ cols b"
    by (simp add: cols_def columnsLoop_append)
  have loop: "inlineLoop X g nb 0 cs (buf @ b') = map_sum id ((@) buf) (inlineLoop X g nb 0 cs b')"
    for b' by (rule inlineLoop_append)
  show ?thesis
  proof (cases "0 < nb")
    case True
    then show ?thesis
      unfolding Some generateCreateTable_Some Let_def cs_def [symmetric] nb_def [symmetric]
        cols_def [symmetric] cols
      using loop [of "cols b @ nl"] by (simp split: sum.splits)
  next
    case False
    then show ?thesis
      unfolding Some generateCreateTable_Some Let_def cs_def [symmetric] nb_def [symmetric]
        cols_def [symmetric] cols
      using loop [of "cols b"] by (simp split: sum.splits)
  qed
qed

lemma indexConstraintQuery_append:
  "indexConstraintQuery X (buf @ b) c v = buf @ indexConstraintQuery X b c v"
  by (simp add: indexConstraintQuery_def)

lemma uniqueIndexConstraintQuery_append:
  "uniqueIndexConstraintQuery X (buf @ b) c v = buf @ uniqueIndexConstraintQuery X b c v"
  by (simp add: uniqueIndexConstraintQuery_def Let_def)

lemma indexesLoop_statements:
  "indexesLoop X g cs buf = buf @ concat (map (standaloneStatement X (Version g)) cs)"
proof (induction cs arbitrary: buf)
  case Nil
  show ?case by simp
next
  case (Cons c cs)
  show ?case
    using indexConstraintQuery_shape [of X buf c "Version g"]
      uniqueIndexConstraintQuery_shape [of X buf c "Version g"]
    by (cases "cn_Type c") (simp_all add: Cons.IH standaloneStatement_def)
qed

subsection \<open>The working list\<close>

lemma workingLoop_elems:
  "elems (fst (workingLoop rs (w, st, sh))) = elems w @ concat (map synthesizedForeignKey rs)"
proof (induction rs arbitrary: w st sh)
  case Nil
  show ?case by simp
next
  case (Cons r rs)
  show ?case
    by (cases "go_append w (the (rel_OwnerForeignKey r))")
       (auto simp add: Cons.IH synthesizedForeignKey_def go_append_def split: option.splits if_splits)
qed

lemma workingConstraints_elems: "elems (fst (workingConstraints t)) = workingList t"
  by (simp add: workingConstraints_def workingLoop_elems workingList_def)

lemma workingLoop_stored:
  "(sh \<longrightarrow> (\<exists>zs. elems w = elems st @ zs)) \<Longrightarrow>
   elems (fst (snd (workingLoop rs (w, st, sh)))) = elems st"
proof (induction rs arbitrary: w st sh)
  case Nil
  show ?case by simp
next
  case (Cons r rs)
  show ?case
  proof (cases "length (rel_OwnerColumns r) = 1 \<or> rel_OwnerForeignKey r = None")
    case True
    then show ?thesis using Cons.prems by (auto simp add: Cons.IH)
  next
    case False
    then obtain fk where fk: "rel_OwnerForeignKey r = Some fk" by auto
    show ?thesis
    proof (cases "sh \<and> spare w \<noteq> []")
      case True
      then obtain zs where zs: "elems w = elems st @ zs" using Cons.prems by auto
      let ?w' = "\<lparr>elems = elems st @ zs @ [fk], spare = tl (spare w)\<rparr>"
      let ?st' = "view (length (elems st)) ?w'"
      have st': "elems ?st' = elems st"
        by (simp add: view_def)
      have "elems (fst (snd (workingLoop rs (?w', ?st', True)))) = elems ?st'"
        by (rule Cons.IH) (simp add: st')
      then show ?thesis
        using False fk True by (simp add: go_append_def st' zs)
    next
      case False': False
      have "elems (fst (snd (workingLoop rs (fst (go_append w fk), st, False)))) = elems st"
        by (rule Cons.IH) simp
      then show ?thesis
        using False fk False' by (auto simp add: go_append_def)
    qed
  qed
qed

lemma tableAfter_elems: "elems (tbl_Constraints (tableAfter t)) = elems (tbl_Constraints t)"
  by (simp add: tableAfter_def workingConstraints_def workingLoop_stored)

subsection \<open>The text of a function\<close>

lemma argsLoop_rest:
  "0 < i \<Longrightarrow>
   argsLoop X i args buf = buf @ concat (map (\<lambda>b. '', '' @ argumentText X b) args)"
  by (induction args arbitrary: i buf) (simp_all add: argumentText_def Let_def)

lemma argsLoop_list: "argsLoop X 0 args buf = buf @ argumentList X args"
  by (cases args) (simp_all add: argumentList_def argumentText_def argsLoop_rest Let_def)

lemma generateCreateFunction_text:
  "generateCreateFunction X g buf f' =
     (if malformedFunction f' then Inl MissingFunctionName
      else Inr (buf @ functionSection X f'))"
  by (cases f'; cases "fn_Behaviour (the f')")
     (simp_all add: generateCreateFunction_def malformedFunction_def functionSection_def
        functionText_def behaviourClause_def argsLoop_list)

lemma functionsLoop_text:
  "functionsLoop X g fs code =
     (if list_ex malformedFunction fs then Inl MissingFunctionName
      else Inr (code @ concat (map (functionSection X) fs)))"
  by (induction fs arbitrary: code) (simp_all add: generateCreateFunction_text)

subsection \<open>The text of a table\<close>

lemma columnsLoop_lines:
  "columnsLoop X n nb (int k) cs buf =
     buf @ concat (map (\<lambda>(i, c). columnText X (int i < n - 1 \<or> 0 < nb) c) (enumerate k cs))"
proof (induction cs arbitrary: k buf)
  case Nil
  show ?case by simp
next
  case (Cons c cs)
  have step: "columnsLoop X n nb (int k) (c # cs) buf =
                columnsLoop X n nb (int (Suc k)) cs
                  (buf @ columnText X (int k < n - 1 \<or> 0 < nb) c)"
    by (cases "DefaultOn c EventInsert") (simp_all add: columnText_def Let_def add.commute)
  show ?case unfolding step Cons.IH by simp
qed

lemma foreignKeyConstraintQuery_text:
  "foreignKeyConstraintQuery X buf c = Inr b \<Longrightarrow> cn_Type c = ConstraintTypeForeignKey \<Longrightarrow>
   b = buf @ constraintText X c"
  by (cases "cn_OnDelete c"; cases "cn_OnUpdate c")
     (auto simp add: foreignKeyConstraintQuery_def constraintText_def actionClause_def
        actionText_def split: option.splits if_splits)

lemma generateConstraint_text:
  "generateConstraint X g buf c = Inr b \<Longrightarrow> inlineConstraint c \<Longrightarrow>
   b = buf @ constraintText X c"
  using foreignKeyConstraintQuery_text [of X buf c b]
  by (cases "cn_Type c")
     (auto simp add: generateConstraint_def inlineConstraint_def constraintText_def
        uniqueConstraintQuery_def primaryKeyConstraintQuery_def checkConstraintQuery_def)

lemma inlineLoop_lines:
  "inlineLoop X g nb (int k) cs buf = Inr out \<Longrightarrow>
   out = buf @ concat (map (\<lambda>(i, c). tab @ constraintText X c
                                     @ (if int i < nb - 1 then '','' else []) @ nl)
                           (enumerate k (filter inlineConstraint cs)))"
proof (induction cs arbitrary: k buf)
  case Nil
  then show ?case by simp
next
  case (Cons c cs)
  show ?case
  proof (cases "inlineConstraint c")
    case False
    then have "inlineLoop X g nb (int k) cs buf = Inr out"
      using Cons.prems by (simp add: inlineConstraint_def)
    from Cons.IH [OF this] show ?thesis using False by simp
  next
    case True
    then have ty: "\<not> (cn_Type c = ConstraintTypeIndex \<or> cn_Type c = ConstraintTypeUniqueIndex)"
      by (simp add: inlineConstraint_def)
    from Cons.prems ty obtain b1 where b1: "generateConstraint X g (buf @ tab) c = Inr b1"
      and rest: "inlineLoop X g nb (int (Suc k)) cs
                   (b1 @ (if int k < nb - 1 then '','' else []) @ nl) = Inr out"
      by (cases "generateConstraint X g (buf @ tab) c")
         (auto simp add: Let_def add.commute split: if_splits)
    from generateConstraint_text [OF b1 True] have "b1 = buf @ tab @ constraintText X c" by simp
    then show ?thesis using Cons.IH [OF rest] True by simp
  qed
qed

lemma generateCreateTable_text:
  assumes "generateCreateTable X g buf (Some t) = Inr out"
  shows "out = buf @ tableText X t"
proof -
  define nb where "nb = CountOf (workingList t)
              [ConstraintTypePrimaryKey, ConstraintTypeCheck, ConstraintTypeUnique,
               ConstraintTypeForeignKey, ConstraintTypeExclusion]"
  define start where "start = buf @ tableHeader t @ columnLines X nb (tbl_Columns t)
                        @ (if 0 < nb then nl else [])"
  have cols: "columnsLoop X (int (length (tbl_Columns t))) nb 0 (tbl_Columns t)
                (buf @ tableHeader t) = buf @ tableHeader t @ columnLines X nb (tbl_Columns t)"
    using columnsLoop_lines [of X "int (length (tbl_Columns t))" nb 0 "tbl_Columns t"
        "buf @ tableHeader t"]
    by (simp add: columnLines_def)
  from assms obtain b where b: "inlineLoop X g nb (int 0) (workingList t) start = Inr b"
    and out: "out = b @ '');'' @ nl"
    unfolding generateCreateTable_Some Let_def workingConstraints_elems nb_def [symmetric] cols
    by (cases "0 < nb") (auto simp add: start_def split: if_splits sum.splits)
  from inlineLoop_lines [OF b] have "b = start @ constraintLines X nb (workingList t)"
    by (simp add: constraintLines_def)
  then show ?thesis
    by (simp add: out start_def tableText_def Let_def nb_def [symmetric])
qed

subsection \<open>The text of a schema\<close>

lemma tablesLoop_text:
  "tablesLoop X g ts code = Inr out \<Longrightarrow>
   None \<notin> set ts \<and>
   out = code @ concat (map (\<lambda>t. tableSection X (Version g) (the t)) ts)"
proof (induction ts arbitrary: code)
  case Nil
  then show ?case by simp
next
  case (Cons t' ts)
  from Cons.prems obtain c1 t where c1: "generateCreateTable X g code t' = Inr c1"
    and t: "t' = Some t"
    and rest: "tablesLoop X g ts
                 (indexesLoop X g (elems (tbl_Constraints (tableAfter t))) c1 @ nl) = Inr out"
    by (auto split: sum.splits option.splits)
  from c1 t have "c1 = code @ tableText X t"
    using generateCreateTable_text [of X g code t c1] by simp
  then show ?case
    using Cons.IH [OF rest] t
    by (simp add: tableSection_def indexesLoop_statements tableAfter_elems)
qed

lemma generate_start:
  "generate X g s =
     (case functionsLoop X g (sch_Functions s)
             (''-- do not modify, generated by pqt'' @ nl @ nl @ schemaStatement s) of
        Inl err \<Rightarrow> Inl err
      | Inr code \<Rightarrow> tablesLoop X g (sch_Tables s) code)"
  by (cases "sch_IfNotExists s") (simp_all add: generate_def schemaStatement_def)

lemma generate_text:
  assumes "generate X g s = Inr out"
  shows "None \<notin> set (sch_Tables s) \<and> out = schemaText X (Version g) s"
proof -
  from assms have nf: "\<not> list_ex malformedFunction (sch_Functions s)"
    and t: "tablesLoop X g (sch_Tables s)
              (''-- do not modify, generated by pqt'' @ nl @ nl @ schemaStatement s
                 @ concat (map (functionSection X) (sch_Functions s))) = Inr out"
    unfolding generate_start functionsLoop_text by (auto split: if_splits)
  show ?thesis
    using tablesLoop_text [OF t] by (simp add: schemaText_def)
qed

subsection \<open>Errors do not depend on the version\<close>

lemma generateCreateTable_isl:
  "generateCreateTable X g code t = Inl e \<Longrightarrow> generateCreateTable X g' code' t = Inl e"
  using generateCreateTable_append [of X g code "[]" t]
    generateCreateTable_append [of X g code' "[]" t]
    generateCreateTable_version [of X g code' t g']
  by (cases "generateCreateTable X g [] t") simp_all

lemma generateCreateTable_isr:
  "generateCreateTable X g code t = Inr c \<Longrightarrow> \<exists>c'. generateCreateTable X g' code' t = Inr c'"
  using generateCreateTable_isl [of X g' code' t _ g code]
  by (cases "generateCreateTable X g' code' t") auto

lemma tablesLoop_error:
  "tablesLoop X g ts code = Inl e \<Longrightarrow> tablesLoop X g' ts code' = Inl e"
proof (induction ts arbitrary: code code')
  case Nil
  then show ?case by simp
next
  case (Cons t ts)
  show ?case
  proof (cases "generateCreateTable X g code t")
    case (Inl e')
    then have "e' = e" using Cons.prems by simp
    then show ?thesis using generateCreateTable_isl [OF Inl, of g' code'] by simp
  next
    case (Inr c)
    from generateCreateTable_isr [OF Inr, of g' code']
    obtain c' where c': "generateCreateTable X g' code' t = Inr c'" by blast
    show ?thesis
    proof (cases t)
      case None
      then show ?thesis using Cons.prems Inr c' by simp
    next
      case (Some tt)
      then show ?thesis
        using Cons.prems Inr c' Cons.IH by (simp add: Let_def)
    qed
  qed
qed

lemma generate_error:
  "generate X g s = Inl e \<Longrightarrow> generate X g' s = Inl e"
  unfolding generate_start functionsLoop_text
  using tablesLoop_error [of X g "sch_Tables s" _ e g']
  by (auto split: if_splits)

lemma generate_success:
  assumes "generate X g' s = Inr out'"
  shows "generate X g s = Inr (schemaText X (Version g) s)"
proof (cases "generate X g s")
  case (Inl e)
  from generate_error [OF this, of g'] assms show ?thesis by simp
next
  case (Inr out)
  then show ?thesis using generate_text [OF Inr] by simp
qed

subsection \<open>Errors of a rejected schema\<close>





lemma generateCreateTable_inline:
  assumes "tbl_Name t \<noteq> []" and "tbl_Columns t \<noteq> []"
  obtains nb start where
    "generateCreateTable X g buf (Some t) =
       map_sum id (\<lambda>b. b @ '');'' @ nl)
         (inlineLoop X g nb 0 (elems (fst (workingConstraints t))) start)"
proof -
  have m: "(case r of Inl err \<Rightarrow> Inl err | Inr b \<Rightarrow> Inr (b @ '');'' @ nl)) =
             map_sum id (\<lambda>b. b @ '');'' @ nl) r" for r :: "error + string"
    by (cases r) simp_all
  show thesis
    using assms by (intro that) (simp only: generateCreateTable_Some Let_def m list.size(3) length_0_conv if_False)
qed




subsection \<open>The fields of an entity\<close>

lemma columnsFields_fields:
  "columnsFields G cs out =
     out @ map (columnField G) (filter (\<lambda>c. columnType G c ModeDefault \<noteq> ''<nil>'') cs)"
  by (induction cs arbitrary: out) (simp_all add: Let_def columnField_def)

lemma ownedFields_fields: "ownedFields G rs out = out @ concat (map (ownedField G) rs)"
proof (induction rs arbitrary: out)
  case Nil
  show ?case by simp
next
  case (Cons r rs)
  show ?case
    by (cases "rel_Type r")
       (simp_all add: Cons.IH ownedField_def singleField_def collectionField_def)
qed

lemma inversedFields_fields: "inversedFields G rs out = out @ concat (map (inversedField G) rs)"
proof (induction rs arbitrary: out)
  case Nil
  show ?case by simp
next
  case (Cons r rs)
  show ?case
    by (cases "rel_Type r")
       (simp_all add: Cons.IH inversedField_def singleField_def collectionField_def)
qed

lemma manyToManyFields_fields:
  "manyToManyFields G a rs out = out @ concat (map (manyToManyField G a) rs)"
  by (induction rs arbitrary: out) (simp_all add: manyToManyField_def collectionField_def)

subsection \<open>The loop of the constructor\<close>

lemma operandLoop_links:
  assumes "distinct as"
  shows "i \<le> length as \<Longrightarrow>
    \<exists>h'. operandLoop h (map Some as) p i = Inr h' \<and> fresh h' = fresh h \<and>
      (\<forall>a. a \<notin> set (drop i as) \<longrightarrow> cells h' a = cells h a) \<and>
      (\<forall>j. i \<le> j \<and> j < length as \<longrightarrow>
         cells h' (as ! j) =
           (cells h (as ! j))\<lparr>sibling := (if j + 1 < length as then Some (as ! (j + 1))
                                          else sibling (cells h (as ! j))),
                               parent := Some p\<rparr>)"
proof (induction "length as - i" arbitrary: i h)
  case 0
  then have "i = length as" by simp
  then show ?case by (auto simp add: operandLoop.simps [of h "map Some as" p "length as"])
next
  case (Suc n)
  then have i: "i < length as" by simp
  let ?a = "as ! i"
  let ?c = "(cells h ?a)\<lparr>sibling := (if i + 1 < length as then Some (as ! (i + 1))
                                        else sibling (cells h ?a)),
                             parent := Some p\<rparr>"
  let ?h1 = "h\<lparr>cells := (cells h)(?a := ?c)\<rparr>"
  have step: "operandLoop h (map Some as) p i = operandLoop ?h1 (map Some as) p (i + 1)"
    using i by (subst operandLoop.simps) (auto simp add: Let_def)
  have n: "n = length as - (i + 1)" using Suc.hyps(2) by simp
  have le: "i + 1 \<le> length as" using i by simp
  from Suc.hyps(1) [OF n le, of ?h1]
  obtain h' where r: "operandLoop ?h1 (map Some as) p (i + 1) = Inr h'"
    and fr: "fresh h' = fresh ?h1"
    and frame: "\<And>a. a \<notin> set (drop (i + 1) as) \<Longrightarrow> cells h' a = cells ?h1 a"
    and upd: "\<And>j. i + 1 \<le> j \<Longrightarrow> j < length as \<Longrightarrow>
         cells h' (as ! j) =
           (cells ?h1 (as ! j))\<lparr>sibling := (if j + 1 < length as then Some (as ! (j + 1))
                                          else sibling (cells ?h1 (as ! j))),
                               parent := Some p\<rparr>"
    by blast
  have notin: "?a \<notin> set (drop (i + 1) as)"
    using assms i by (metis Cons_nth_drop_Suc Suc_eq_plus1 distinct.simps(2) distinct_drop)
  have d: "drop i as = ?a # drop (i + 1) as"
    using i by (simp add: Cons_nth_drop_Suc)
  have neq: "as ! j \<noteq> ?a" if "i + 1 \<le> j" "j < length as" for j
    using that assms i by (simp add: nth_eq_iff_index_eq)
  have "\<forall>a. a \<notin> set (drop i as) \<longrightarrow> cells h' a = cells h a"
    using frame d by auto
  moreover have "\<forall>j. i \<le> j \<and> j < length as \<longrightarrow>
         cells h' (as ! j) =
           (cells h (as ! j))\<lparr>sibling := (if j + 1 < length as then Some (as ! (j + 1))
                                          else sibling (cells h (as ! j))),
                               parent := Some p\<rparr>"
  proof (intro allI impI)
    fix j assume j: "i \<le> j \<and> j < length as"
    show "cells h' (as ! j) =
           (cells h (as ! j))\<lparr>sibling := (if j + 1 < length as then Some (as ! (j + 1))
                                          else sibling (cells h (as ! j))),
                               parent := Some p\<rparr>"
    proof (cases "j = i")
      case True
      then show ?thesis using frame [OF notin] by simp
    next
      case False
      then have "i + 1 \<le> j" using j by simp
      then show ?thesis using upd [of j] neq [of j] j by simp
    qed
  qed
  ultimately show ?case using step r fr by simp
qed

subsection \<open>The examples evaluated\<close>

lemmas emitter_defs = generate_def generateCreateFunction_def generateCreateTable_def
  workingConstraints_def tableAfter_def go_append_def view_def CountOf_def DefaultOn_def
  generateConstraint_def primaryKeyConstraintQuery_def uniqueConstraintQuery_def
  checkConstraintQuery_def foreignKeyConstraintQuery_def indexConstraintQuery_def
  uniqueIndexConstraintQuery_def

lemma generate_library: "generate example_pqt gen95 sch_library = Inr sql_library"
  by (simp add: emitter_defs example_defs sql_library_def)

lemma generate_indexed_94: "generate example_pqt gen94 sch_indexed = Inr (sql_indexed [])"
  by (simp add: emitter_defs example_defs sql_indexed_def)

lemma schemaText_indexed_95:
  "schemaText example_pqt (Version gen95) sch_indexed = sql_indexed ''IF NOT EXISTS ''"
  by (simp add: schemaText_def schemaStatement_def functionSection_def functionText_def
      argumentList_def behaviourClause_def tableSection_def tableText_def tableHeader_def
      workingList_def CountOf_def columnLines_def columnText_def DefaultOn_def
      constraintLines_def constraintText_def inlineConstraint_def standaloneStatement_def
      existenceGuard_def whereClause_def enumerate_eq_zip
      example_defs sql_indexed_def)

lemma generate_nocolumns:
  "generate example_pqt gen94 sch_nocolumns = Inl (TableHasNoColumns ''author'')"
  by (simp add: emitter_defs example_defs)


lemma createTable_book: "generateCreateTable example_pqt gen95 [] (Some tbl_book) = Inr sql_book"
  by (simp add: emitter_defs example_defs sql_book_def)

lemma working_book:
  "elems (fst (workingConstraints tbl_book)) = [cn_book_pkey, cn_fkey_composite] \<and>
   spare (fst (snd (workingConstraints tbl_book))) = [cn_fkey_composite] \<and>
   elems (fst (workingConstraints tbl_detached)) = [cn_book_pkey, cn_fkey]"
  by (simp add: workingConstraints_def go_append_def view_def tbl_book_def tbl_detached_def
      rel_single_def rel_composite_def rel_detached_def)

lemma fields_place:
  "entityPropertiesGenerator partial_gogen 3 tbl_place =
     [\<lparr>sf_Name = ''id'', sf_Type = ''int64'', sf_Tags = [], sf_ReadOnly = False\<rparr>]"
  by (simp add: entityPropertiesGenerator_def tbl_place_def tbl_report_def partial_gogen_def
      col_id_def col_shape_def)

lemma fields_author:
  "entityPropertiesGenerator partial_gogen 1 ent_author =
     [\<lparr>sf_Name = ''id'', sf_Type = ''int64'', sf_Tags = [], sf_ReadOnly = False\<rparr>,
      \<lparr>sf_Name = ''name'', sf_Type = ''string'', sf_Tags = [], sf_ReadOnly = False\<rparr>,
      \<lparr>sf_Name = ''books'', sf_Type = ''[]*bookEntity'', sf_Tags = [], sf_ReadOnly = False\<rparr>,
      \<lparr>sf_Name = ''books'', sf_Type = ''[]*bookEntity'', sf_Tags = [], sf_ReadOnly = False\<rparr>] \<and>
   entityPropertiesGenerator partial_gogen 2 ent_book =
     [\<lparr>sf_Name = ''id'', sf_Type = ''int64'', sf_Tags = [], sf_ReadOnly = False\<rparr>,
      \<lparr>sf_Name = ''name'', sf_Type = ''string'', sf_Tags = [], sf_ReadOnly = False\<rparr>,
      \<lparr>sf_Name = ''author'', sf_Type = ''*authorEntity'', sf_Tags = [], sf_ReadOnly = False\<rparr>,
      \<lparr>sf_Name = ''Writers'', sf_Type = ''[]*authorEntity'', sf_Tags = [], sf_ReadOnly = False\<rparr>]"
  by (simp add: entityPropertiesGenerator_def ent_author_def ent_book_def partial_gogen_def
      rel_books_def rel_tags_def or_def example_defs)


subsection \<open>Accepted schemas\<close>

lemma foreignKeyConstraintQuery_accepts:
  "(\<exists>b. foreignKeyConstraintQuery X buf c = Inr b) =
     (cn_PrimaryColumns c \<noteq> [] \<and> cn_Columns c \<noteq> [] \<and> cn_Table c \<noteq> None)"
  by (cases "cn_OnDelete c"; cases "cn_OnUpdate c")
     (auto simp add: foreignKeyConstraintQuery_def split: option.splits)

lemma generateConstraint_accepts:
  "(\<exists>b. generateConstraint X g buf c = Inr b) = renderable c"
  using foreignKeyConstraintQuery_accepts [of X buf c]
  by (cases "cn_Type c") (simp_all add: generateConstraint_def renderable_def)

lemma inlineLoop_accepts:
  "(\<exists>out. inlineLoop X g nb i cs buf = Inr out) = list_all renderable cs"
proof (induction cs arbitrary: i buf)
  case Nil
  show ?case by simp
next
  case (Cons c cs)
  show ?case
  proof (cases "cn_Type c = ConstraintTypeIndex \<or> cn_Type c = ConstraintTypeUniqueIndex")
    case True
    then have "renderable c" by (auto simp add: renderable_def)
    then show ?thesis using True Cons.IH by simp
  next
    case False
    show ?thesis
    proof (cases "generateConstraint X g (buf @ tab) c")
      case (Inl e)
      then have "\<not> renderable c"
        using generateConstraint_accepts [of X g "buf @ tab" c] by simp
      then show ?thesis using False Inl by simp
    next
      case (Inr b)
      then have "renderable c"
        using generateConstraint_accepts [of X g "buf @ tab" c] by auto
      then show ?thesis using False Inr Cons.IH by (simp add: Let_def)
    qed
  qed
qed

lemma generateCreateTable_accepts:
  "(\<exists>out. generateCreateTable X g buf (Some t) = Inr out) = acceptedTable (Some t)"
proof (cases "tbl_Name t = [] \<or> tbl_Columns t = []")
  case True
  then show ?thesis unfolding generateCreateTable_Some by (auto simp add: acceptedTable_def)
next
  case False
  then obtain nb start where eq:
    "generateCreateTable X g buf (Some t) =
       map_sum id (\<lambda>b. b @ '');'' @ nl)
         (inlineLoop X g nb 0 (elems (fst (workingConstraints t))) start)"
    using generateCreateTable_inline [of t X g buf] by auto
  have "(\<exists>out. generateCreateTable X g buf (Some t) = Inr out) =
          (\<exists>out. inlineLoop X g nb 0 (workingList t) start = Inr out)"
    unfolding eq workingConstraints_elems
    by (cases "inlineLoop X g nb 0 (workingList t) start") simp_all
  then show ?thesis
    using False by (simp add: inlineLoop_accepts acceptedTable_def)
qed

lemma tablesLoop_accepts:
  "(\<exists>out. tablesLoop X g ts code = Inr out) = list_all acceptedTable ts"
proof (induction ts arbitrary: code)
  case Nil
  show ?case by simp
next
  case (Cons t' ts)
  show ?case
  proof (cases t')
    case None
    then show ?thesis by (simp add: generateCreateTable_def acceptedTable_def)
  next
    case (Some t)
    show ?thesis
    proof (cases "generateCreateTable X g code (Some t)")
      case (Inl e)
      then have "\<not> acceptedTable (Some t)"
        using generateCreateTable_accepts [of X g code t] by simp
      then show ?thesis using Some Inl by simp
    next
      case (Inr c1)
      then have "acceptedTable (Some t)"
        using generateCreateTable_accepts [of X g code t] by auto
      then show ?thesis using Some Inr Cons.IH by (simp add: Let_def)
    qed
  qed
qed

lemma generate_accepts: "(\<exists>out. generate X g s = Inr out) = accepted s"
  unfolding generate_start functionsLoop_text accepted_def
  using tablesLoop_accepts [of X g "sch_Tables s"]
  by (cases "list_ex malformedFunction (sch_Functions s)") simp_all

subsection \<open>The order of the output\<close>

text \<open>
  Claim C1. Generation succeeds exactly on the accepted schemas, and then its output is, in
  this order: the banner; the statement \<^verbatim>\<open>CREATE SCHEMA\<close>, present when the schema has
  a name, with \<^verbatim>\<open>IF NOT EXISTS\<close> when its flag is set; the block of every function, in the
  declared order (a nil entry has none); for every table, in the declared order, its block,
  then the standalone statements of its declared constraints in their order (an index or a
  unique index has one, any other constraint none), then a blank line. The commas inside a
  table block are those that the emitter writes (\<open>columnLines\<close>, \<open>constraintLines\<close>).
\<close>

theorem generate_order:
  "(\<exists>out. generate X g s = Inr out) = accepted s \<and>
   (generate X g s = Inr out \<longrightarrow>
      None \<notin> set (sch_Tables s) \<and>
      out = ''-- do not modify, generated by pqt'' @ nl @ nl @ schemaStatement s
            @ concat (map (functionSection X) (sch_Functions s))
            @ concat (map (\<lambda>t. tableText X (the t)
                               @ concat (map (standaloneStatement X (Version g))
                                             (elems (tbl_Constraints (the t))))
                               @ nl)
                          (sch_Tables s)))"
  using generate_accepts [of X g s] generate_text [of X g s out]
  by (simp add: schemaText_def tableSection_def)

text \<open>
  A schema with a name, three functions of which the first is nil, and two tables of
  which the first has an index and a unique index: it is accepted and its output is
  \<open>sql_library\<close>.
\<close>

theorem generate_order_witness:
  "accepted sch_library \<and>
   generate example_pqt gen95 sch_library = Inr sql_library \<and>
   None \<notin> set (sch_Tables sch_library) \<and>
   sql_library =
     ''-- do not modify, generated by pqt'' @ nl @ nl @ schemaStatement sch_library
       @ concat (map (functionSection example_pqt) (sch_Functions sch_library))
       @ concat (map (\<lambda>t. tableText example_pqt (the t)
                          @ concat (map (standaloneStatement example_pqt (Version gen95))
                                        (elems (tbl_Constraints (the t))))
                          @ nl)
                     (sch_Tables sch_library))"
  using generate_order [of example_pqt gen95 sch_library sql_library] generate_library
  by (intro conjI) auto

subsection \<open>The version of the target in the output\<close>

text \<open>
  Claim C3. The statement of an index is \<^verbatim>\<open>CREATE INDEX\<close>, that of a unique index
  \<^verbatim>\<open>CREATE UNIQUE INDEX\<close>, with \<^verbatim>\<open>IF NOT EXISTS\<close> if and only if the version is at
  least 9.5 (\<open>existenceGuard\<close>); a unique index with a non-empty predicate has
  \<^verbatim>\<open> WHERE <predicate>\<close> before the semicolon (\<open>whereClause\<close>). Nothing else depends on
  the version. The blocks of a function and of a table are the same for every two
  generators. A schema that is rejected by one generator is rejected by every generator,
  with the same error. A schema that is accepted by one generator is accepted by every
  generator \<open>g\<close>, whose output is \<open>schemaText\<close> at the version of \<open>g\<close>: there the version
  occurs in the existence guard of the standalone statements and nowhere else. So two
  generators whose versions compare alike with 9.5 give the same result.
\<close>

theorem index_statement_version:
  \<open>indexConstraintQuery X buf c ver =
     buf @ ''CREATE INDEX '' @ existenceGuard ver @ ''"'' @ Constraint_Name X c @ ''" ON ''
       @ Table_FullName X (cn_PrimaryTable c) @ '' ('' @ Columns_String X (cn_PrimaryColumns c)
       @ '');'' @ nl \<and>
   uniqueIndexConstraintQuery X buf c ver =
     buf @ ''CREATE UNIQUE INDEX '' @ existenceGuard ver @ ''"'' @ Constraint_Name X c @ ''" ON ''
       @ Table_FullName X (cn_PrimaryTable c) @ '' ('' @ Columns_String X (cn_PrimaryColumns c)
       @ '')'' @ whereClause c @ '';'' @ nl \<and>
   generateCreateFunction X g buf f = generateCreateFunction X g' buf f \<and>
   generateCreateTable X g buf t = generateCreateTable X g' buf t \<and>
   (generate X g' s = Inl e \<longrightarrow> generate X g s = Inl e) \<and>
   (generate X g' s = Inr out' \<longrightarrow> generate X g s = Inr (schemaText X (Version g) s)) \<and>
   (float64_ge (Version g) (19 / 2) = float64_ge (Version g') (19 / 2) \<longrightarrow>
      generate X g s = generate X g' s)\<close>
  using indexConstraintQuery_shape [of X buf c ver]
    uniqueIndexConstraintQuery_shape [of X buf c ver]
    generateCreateFunction_version [of X g buf f g']
    generateCreateTable_version [of X g buf t g']
    generate_error [of X g' s e g] generate_success [of X g' s out' g]
    generate_version [of g g' X s]
  by blast

text \<open>
  The examples of the specification. A schema with one table, an index and a unique index
  with a predicate: generated for 9.4 it has no existence guard, generated for 9.5 it has
  one in both statements and nowhere else. A schema with a table without columns is
  rejected for both versions. Two versions below 9.5 give the same output.
\<close>

theorem index_statement_version_witness:
  \<open>generate example_pqt gen94 sch_indexed = Inr (sql_indexed []) \<and>
   generate example_pqt gen95 sch_indexed = Inr (sql_indexed ''IF NOT EXISTS '') \<and>
   generate example_pqt gen94 sch_nocolumns = Inl (TableHasNoColumns ''author'') \<and>
   generate example_pqt gen95 sch_nocolumns = Inl (TableHasNoColumns ''author'') \<and>
   float64_ge (Version gen94) (19 / 2) = float64_ge (Version \<lparr>Version = NaN\<rparr>) (19 / 2) \<and>
   generate example_pqt gen94 sch_indexed = generate example_pqt \<lparr>Version = NaN\<rparr> sch_indexed \<and>
   indexConstraintQuery example_pqt [] cn_index (Version gen94) =
     ''CREATE INDEX "author_name" ON author (name);'' @ nl \<and>
   indexConstraintQuery example_pqt [] cn_index (Version gen95) =
     ''CREATE INDEX IF NOT EXISTS "author_name" ON author (name);'' @ nl \<and>
   uniqueIndexConstraintQuery example_pqt [] cn_unique_index (Version gen95) =
     ''CREATE UNIQUE INDEX IF NOT EXISTS "author_name" ON author (name) WHERE id > 0;'' @ nl\<close>
proof -
  note ok = index_statement_version [of example_pqt "[]" cn_index "Version gen94" gen95 None
      gen94 None sch_indexed MissingTableName "sql_indexed []"]
  note bad = index_statement_version [of example_pqt "[]" cn_index "Version gen95" gen95 None
      gen94 None sch_nocolumns "TableHasNoColumns ''author''" "[]"]
  note same = index_statement_version [of example_pqt "[]" cn_unique_index "Version gen95"
      gen94 None "\<lparr>Version = NaN\<rparr>" None sch_indexed MissingTableName "[]"]
  have g: "float64_ge (Version gen94) (19 / 2) =
             float64_ge (Version \<lparr>Version = NaN\<rparr>) (19 / 2)"
    by (simp add: gen94_def)
  have 1: "generate example_pqt gen95 sch_indexed = Inr (sql_indexed ''IF NOT EXISTS '')"
    using ok generate_indexed_94 schemaText_indexed_95 by simp
  have 2: "generate example_pqt gen95 sch_nocolumns = Inl (TableHasNoColumns ''author'')"
    using bad generate_nocolumns by simp
  have 3: "generate example_pqt gen94 sch_indexed =
             generate example_pqt \<lparr>Version = NaN\<rparr> sch_indexed"
    using same g by simp
  have 4: \<open>indexConstraintQuery example_pqt [] cn_index (Version gen94) =
             ''CREATE INDEX "author_name" ON author (name);'' @ nl\<close>
    using ok by (simp add: example_defs existenceGuard_def)
  have 5: \<open>indexConstraintQuery example_pqt [] cn_index (Version gen95) =
             ''CREATE INDEX IF NOT EXISTS "author_name" ON author (name);'' @ nl\<close>
    using bad by (simp add: example_defs existenceGuard_def)
  have 6: \<open>uniqueIndexConstraintQuery example_pqt [] cn_unique_index (Version gen95) =
     ''CREATE UNIQUE INDEX IF NOT EXISTS "author_name" ON author (name) WHERE id > 0;'' @ nl\<close>
    using same by (simp add: example_defs existenceGuard_def whereClause_def)
  show ?thesis
    using generate_indexed_94 1 generate_nocolumns 2 g 3 4 5 6 by (intro conjI)
qed

subsection \<open>Synthesized foreign keys\<close>

text \<open>
  Claim C8, amended. The working list of a table is the list of its declared constraints
  followed by the foreign keys of its owned relationships, in the order of the
  relationships, where a relationship contributes its foreign key unless it has exactly one
  owner column or no foreign key (so one with no owner column contributes it too). The
  inline constraints of the table block are those of this list. After the pass the table
  holds the same constraints as before: an \<^verbatim>\<open>append\<close> in place writes a spare cell of the
  backing array, beyond the length of the stored slice.
\<close>

theorem workingConstraints_synthesized:
  "elems (fst (workingConstraints t)) =
     elems (tbl_Constraints t) @ concat (map synthesizedForeignKey (tbl_OwnedRelationships t)) \<and>
   elems (tbl_Constraints (tableAfter t)) = elems (tbl_Constraints t) \<and>
   (generateCreateTable X g buf (Some t) = Inr out \<longrightarrow> out = buf @ tableText X t)"
  using workingConstraints_elems [of t] tableAfter_elems [of t]
    generateCreateTable_text [of X g buf t out]
  by (simp add: workingList_def)

text \<open>
  The table \<open>book\<close> declares a primary key, in a slice with one spare cell, and owns a
  relationship with one owner column and one with two: the working list gains the foreign
  key of the second, which is written inline after the primary key; the stored slice keeps
  its one element, and the spare cell holds the foreign key.
\<close>

theorem workingConstraints_synthesized_witness:
  "generateCreateTable example_pqt gen95 [] (Some tbl_book) = Inr sql_book \<and>
   sql_book = [] @ tableText example_pqt tbl_book \<and>
   elems (fst (workingConstraints tbl_book)) = [cn_book_pkey, cn_fkey_composite] \<and>
   elems (tbl_Constraints (tableAfter tbl_book)) = [cn_book_pkey] \<and>
   spare (tbl_Constraints (tableAfter tbl_book)) = [cn_fkey_composite]"
proof -
  note t = workingConstraints_synthesized [of tbl_book example_pqt gen95 "[]" sql_book]
  have 1: "sql_book = [] @ tableText example_pqt tbl_book"
    using t createTable_book by simp
  have 2: "elems (fst (workingConstraints tbl_book)) = [cn_book_pkey, cn_fkey_composite]"
    using working_book by simp
  have 3: "elems (tbl_Constraints (tableAfter tbl_book)) = [cn_book_pkey]"
    using t by (simp add: tbl_book_def)
  have 4: "spare (tbl_Constraints (tableAfter tbl_book)) = [cn_fkey_composite]"
    using working_book by (simp add: tableAfter_def)
  show ?thesis using createTable_book 1 2 3 4 by (intro conjI)
qed

text \<open>
  The claim as it stands fails for a relationship with no owner column: its foreign key is
  added to the working list.
\<close>

theorem workingConstraints_no_owner_column:
  "length (rel_OwnerColumns rel_detached) = 0 \<and>
   tbl_OwnedRelationships tbl_detached = [rel_detached] \<and>
   elems (tbl_Constraints tbl_detached) = [cn_book_pkey] \<and>
   elems (fst (workingConstraints tbl_detached)) = [cn_book_pkey, cn_fkey]"
  using working_book by (simp add: tbl_detached_def tbl_book_def rel_detached_def)

subsection \<open>Rejected schemas\<close>




subsection \<open>The fields of an entity, in order\<close>

text \<open>
  Claim C5, amended. The fields of the entity of a table are, in this order: one field for
  every column whose type is rendered (a column for which \<^verbatim>\<open>columnType\<close> answers
  \<^verbatim>\<open><nil>\<close> has no field), in the declared order; then the fields of the owned
  relationships, of the inversed relationships and of the many-to-many relationships, each
  list in its order. A single-valued field is named after the other table, a collection
  after the other table with the suffix \<^verbatim>\<open>s\<close>, and the override name, when there is one,
  replaces either: for an owned relationship the inversed name over the inversed table
  (a collection for one-to-many), for an inversed relationship the owner name over the
  owner table (a collection for many-to-one), for a many-to-many relationship a collection
  of the table on the other side.
\<close>

theorem entityPropertiesGenerator_fields:
  "entityPropertiesGenerator G a t =
     map (columnField G) (filter (\<lambda>c. columnType G c ModeDefault \<noteq> ''<nil>'') (tbl_Columns t))
     @ concat (map (ownedField G) (tbl_OwnedRelationships t))
     @ concat (map (inversedField G) (tbl_InversedRelationships t))
     @ concat (map (manyToManyField G a) (tbl_ManyToManyRelationships t))"
  by (simp add: entityPropertiesGenerator_def columnsFields_fields ownedFields_fields
        inversedFields_fields manyToManyFields_fields)

text \<open>
  The example of the specification: a one-to-many relationship from \<open>author\<close> to \<open>book\<close>
  with no override, and a many-to-many relationship between them with an override of the
  owner name.
\<close>

theorem entityPropertiesGenerator_fields_witness:
  "entityPropertiesGenerator partial_gogen 1 ent_author =
     [\<lparr>sf_Name = ''id'', sf_Type = ''int64'', sf_Tags = [], sf_ReadOnly = False\<rparr>,
      \<lparr>sf_Name = ''name'', sf_Type = ''string'', sf_Tags = [], sf_ReadOnly = False\<rparr>,
      \<lparr>sf_Name = ''books'', sf_Type = ''[]*bookEntity'', sf_Tags = [], sf_ReadOnly = False\<rparr>,
      \<lparr>sf_Name = ''books'', sf_Type = ''[]*bookEntity'', sf_Tags = [], sf_ReadOnly = False\<rparr>] \<and>
   entityPropertiesGenerator partial_gogen 2 ent_book =
     [\<lparr>sf_Name = ''id'', sf_Type = ''int64'', sf_Tags = [], sf_ReadOnly = False\<rparr>,
      \<lparr>sf_Name = ''name'', sf_Type = ''string'', sf_Tags = [], sf_ReadOnly = False\<rparr>,
      \<lparr>sf_Name = ''author'', sf_Type = ''*authorEntity'', sf_Tags = [], sf_ReadOnly = False\<rparr>,
      \<lparr>sf_Name = ''Writers'', sf_Type = ''[]*authorEntity'', sf_Tags = [], sf_ReadOnly = False\<rparr>]"
  using entityPropertiesGenerator_fields [of partial_gogen 1 ent_author]
    entityPropertiesGenerator_fields [of partial_gogen 2 ent_book]
  by (simp add: columnField_def ownedField_def inversedField_def manyToManyField_def
      singleField_def collectionField_def or_def ent_author_def ent_book_def partial_gogen_def
      rel_books_def rel_tags_def example_defs)

text \<open>
  The claim as it stands fails for a column whose type is not rendered: the table \<open>place\<close>
  has two columns and its entity one field.
\<close>

theorem entityPropertiesGenerator_skips_column:
  "tbl_Columns tbl_place = [col_id, col_shape] \<and>
   entityPropertiesGenerator partial_gogen 3 tbl_place =
     [\<lparr>sf_Name = ''id'', sf_Type = ''int64'', sf_Tags = [], sf_ReadOnly = False\<rparr>]"
  using fields_place by (simp add: tbl_place_def)

subsection \<open>The constructor of criteria combinators\<close>

text \<open>
  Claim C6. Applied to an operator and to operands that are distinct nodes of the heap, at
  least one, the constructor returns a new node with this operator, whose child is the
  first operand and which has no sibling and no parent; every operand but the last has
  the next operand as its sibling, the sibling of the last operand is left as it was, and
  every operand has the new node as its parent, its operator and child being left as they
  were; no other node changes.
\<close>

theorem Operand_links:
  assumes "as \<noteq> []" and "distinct as" and "\<forall>a \<in> set as. a < fresh h"
  shows "\<exists>h'. Operand h op (map Some as) = Inr (h', fresh h) \<and>
      cells h' (fresh h) = \<lparr>operator = op, child = Some (hd as), sibling = None, parent = None\<rparr> \<and>
      (\<forall>i. i + 1 < length as \<longrightarrow> sibling (cells h' (as ! i)) = Some (as ! (i + 1))) \<and>
      sibling (cells h' (last as)) = sibling (cells h (last as)) \<and>
      (\<forall>a \<in> set as. parent (cells h' a) = Some (fresh h) \<and>
                       operator (cells h' a) = operator (cells h a) \<and>
                       child (cells h' a) = child (cells h a)) \<and>
      (\<forall>a. a \<noteq> fresh h \<and> a \<notin> set as \<longrightarrow> cells h' a = cells h a)"
proof -
  let ?new = "\<lparr>operator = op, child = Some (hd as), sibling = None, parent = None\<rparr>"
  let ?h0 = "\<lparr>cells = (cells h)(fresh h := ?new), fresh = fresh h + 1\<rparr>"
  have fresh_notin: "fresh h \<notin> set as" using assms(3) by auto
  from operandLoop_links [OF assms(2), of 0 ?h0 "fresh h"]
  obtain h' where r: "operandLoop ?h0 (map Some as) (fresh h) 0 = Inr h'"
    and frame: "\<And>a. a \<notin> set as \<Longrightarrow> cells h' a = cells ?h0 a"
    and upd: "\<And>j. j < length as \<Longrightarrow>
         cells h' (as ! j) =
           (cells ?h0 (as ! j))\<lparr>sibling := (if j + 1 < length as then Some (as ! (j + 1))
                                          else sibling (cells ?h0 (as ! j))),
                               parent := Some (fresh h)\<rparr>"
    by auto
  have old: "cells ?h0 (as ! j) = cells h (as ! j)" if "j < length as" for j
  proof -
    have "as ! j \<in> set as" using that by simp
    then have "as ! j \<noteq> fresh h" using fresh_notin by auto
    then show ?thesis by simp
  qed
  have res: "Operand h op (map Some as) = Inr (h', fresh h)"
    using assms(1) r by (simp add: Operand_def alloc_def hd_conv_nth)
  have new: "cells h' (fresh h) = ?new"
    using frame [OF fresh_notin] by simp
  have sib: "\<forall>i. i + 1 < length as \<longrightarrow> sibling (cells h' (as ! i)) = Some (as ! (i + 1))"
    using upd old by simp
  have lst: "sibling (cells h' (last as)) = sibling (cells h (last as))"
    using upd [of "length as - 1"] old [of "length as - 1"] assms(1)
    by (simp add: last_conv_nth)
  have par: "\<forall>a \<in> set as. parent (cells h' a) = Some (fresh h) \<and>
                       operator (cells h' a) = operator (cells h a) \<and>
                       child (cells h' a) = child (cells h a)"
  proof
    fix a assume "a \<in> set as"
    then obtain j where j: "j < length as" "a = as ! j" by (auto simp add: in_set_conv_nth)
    then show "parent (cells h' a) = Some (fresh h) \<and>
                       operator (cells h' a) = operator (cells h a) \<and>
                       child (cells h' a) = child (cells h a)"
      using upd [of j] old [of j] by simp
  qed
  have oth: "\<forall>a. a \<noteq> fresh h \<and> a \<notin> set as \<longrightarrow> cells h' a = cells h a"
    using frame by simp
  show ?thesis using res new sib lst par oth by blast
qed

text \<open>
  The example of the specification: three leaves combined with \<^verbatim>\<open>AND\<close>.
\<close>

theorem Operand_links_witness:
  "[0, 1, 2 :: nat] \<noteq> [] \<and> distinct [0, 1, 2 :: nat] \<and> list_all (\<lambda>a. a < fresh heap3) [0, 1, 2] \<and>
   (\<exists>h'. Operand heap3 ''AND'' [Some 0, Some 1, Some 2] = Inr (h', 3) \<and>
      operator (cells h' 3) = ''AND'' \<and> child (cells h' 3) = Some 0 \<and>
      sibling (cells h' 0) = Some 1 \<and> sibling (cells h' 1) = Some 2 \<and>
      sibling (cells h' 2) = None \<and>
      parent (cells h' 0) = Some 3 \<and> parent (cells h' 1) = Some 3 \<and>
      parent (cells h' 2) = Some 3)"
proof -
  have pre: "[0, 1, 2 :: nat] \<noteq> []" "distinct [0, 1, 2 :: nat]"
    "\<forall>a \<in> set [0, 1, 2]. a < fresh heap3"
    by (simp_all add: heap3_def)
  from Operand_links [OF pre, of "''AND''"]
  obtain h' where r: "Operand heap3 ''AND'' (map Some [0, 1, 2]) = Inr (h', fresh heap3)"
    and new: "cells h' (fresh heap3) =
                \<lparr>operator = ''AND'', child = Some (hd [0, 1, 2]), sibling = None, parent = None\<rparr>"
    and sib: "\<forall>i. i + 1 < length [0, 1, 2 :: nat] \<longrightarrow>
                sibling (cells h' ([0, 1, 2] ! i)) = Some ([0, 1, 2] ! (i + 1))"
    and lst: "sibling (cells h' (last [0, 1, 2])) = sibling (cells heap3 (last [0, 1, 2]))"
    and par: "\<forall>a \<in> set [0, 1, 2]. parent (cells h' a) = Some (fresh heap3) \<and>
                operator (cells h' a) = operator (cells heap3 a) \<and>
                child (cells h' a) = child (cells heap3 a)"
    by blast
  have f: "fresh heap3 = 3" by (simp add: heap3_def)
  have s0: "sibling (cells h' 0) = Some 1" using sib [rule_format, of 0] by simp
  have s1: "sibling (cells h' 1) = Some 2" using sib [rule_format, of 1] by simp
  have s2: "sibling (cells h' 2) = None" using lst by (simp add: heap3_def leaf_def)
  have p: "parent (cells h' 0) = Some 3" "parent (cells h' 1) = Some 3"
    "parent (cells h' 2) = Some 3"
    using par by (simp_all add: f)
  show ?thesis
    using r new s0 s1 s2 p by (simp add: f)
qed

end
